theory Spec2Isabelle
  imports Complex_Main "HOL-Library.Log_Nat" "HOL-Library.Countable"
begin

section \<open>Raw data readers of VisualPIC (DataReading/rawDataReaders.py)\<close>

text \<open>
  A shallow embedding of \<^verbatim>\<open>RawDataReaderBase\<close> and its three subclasses
  \<^verbatim>\<open>OsirisRawDataReader\<close>, \<^verbatim>\<open>HiPACERawDataReader\<close> and
  \<^verbatim>\<open>OpenPMDRawDataReader\<close>. A reader object is a record; a method takes the
  object and returns its result together with the updated object. A raised exception is
  the \<open>Inl\<close> branch of the result; the object returned with it carries the
  assignments made before the exception was raised, as in Python.
\<close>

subsection \<open>float64 arithmetic\<close>

text \<open>
  numpy computes on \<^verbatim>\<open>float64\<close>. A finite float64 value is modelled by the real
  number it denotes, and every arithmetic operation rounds its exact result to the nearest
  real with a 53 bit significand, ties to the even significand (the IEEE 754 default).
  The exponent range is not modelled: no overflow to infinity and no subnormal numbers.
\<close>

type_synonym f64 = real

text \<open>\<open>ilog2 x\<close> is the exponent \<open>e\<close> with \<open>2^e \<le> |x| < 2^(e+1)\<close>, for \<open>x \<noteq> 0\<close>.\<close>

definition ilog2 :: "real \<Rightarrow> int" where
  "ilog2 x =
     (if 1 \<le> \<bar>x\<bar> then int (floorlog 2 (nat \<lfloor>\<bar>x\<bar>\<rfloor>)) - 1
      else - int (floorlog 2 (nat (\<lceil>1 / \<bar>x\<bar>\<rceil> - 1))))"

definition round_half_even :: "real \<Rightarrow> int" where
  "round_half_even y =
     (let f = \<lfloor>y\<rfloor>; r = y - of_int f
      in if r < 1 / 2 then f
         else if 1 / 2 < r then f + 1
         else if even f then f else f + 1)"

definition fl64 :: "real \<Rightarrow> f64" where
  "fl64 x =
     (if x = 0 then 0
      else let e = ilog2 x - 52
           in of_int (round_half_even (x / 2 powi e)) * 2 powi e)"

definition fadd :: "f64 \<Rightarrow> f64 \<Rightarrow> f64" where
  "fadd x y = fl64 (x + y)"

definition fsub :: "f64 \<Rightarrow> f64 \<Rightarrow> f64" where
  "fsub x y = fl64 (x - y)"

definition fmul :: "f64 \<Rightarrow> f64 \<Rightarrow> f64" where
  "fmul x y = fl64 (x * y)"

text \<open>The cast of an integer array element to float64.\<close>

definition i2f :: "int \<Rightarrow> f64" where
  "i2f n = fl64 (of_int n)"

subsection \<open>Python strings\<close>

text \<open>\<^verbatim>\<open>str(n)\<close> for an integer, and \<^verbatim>\<open>s.zfill(width)\<close>.\<close>

definition digit_char :: "nat \<Rightarrow> char" where
  "digit_char n = ''0123456789abcdef'' ! n"

function nat_digits :: "nat \<Rightarrow> string" where
  "nat_digits n =
     (if n < 10 then [digit_char n] else nat_digits (n div 10) @ [digit_char (n mod 10)])"
  by pat_completeness auto
termination
  by (relation "measure id") auto

declare nat_digits.simps [simp del]

definition str_int :: "int \<Rightarrow> string" where
  "str_int i = (if i < 0 then CHR ''-'' # nat_digits (nat (- i)) else nat_digits (nat i))"

definition zfill :: "nat \<Rightarrow> string \<Rightarrow> string" where
  "zfill width s =
     (if width \<le> length s then s
      else case s of
             [] \<Rightarrow> replicate width (CHR ''0'')
           | c # cs \<Rightarrow>
               if c = CHR ''+'' \<or> c = CHR ''-''
               then c # replicate (width - length s) (CHR ''0'') @ cs
               else replicate (width - length s) (CHR ''0'') @ s)"

text \<open>
  \<^verbatim>\<open>str(x)\<close> of a bytes object is its repr: \<^verbatim>\<open>b'...'\<close> with the quote,
  the backslash and the non-printable bytes escaped. The quote is the double quote when
  the bytes hold a single quote and no double quote.
\<close>

definition repr_byte :: "char \<Rightarrow> char \<Rightarrow> string" where
  "repr_byte q c =
     (if c = q \<or> c = CHR 0x5C then [CHR 0x5C, c]
      else if c = CHR 0x09 then [CHR 0x5C, CHR ''t'']
      else if c = CHR 0x0A then [CHR 0x5C, CHR ''n'']
      else if c = CHR 0x0D then [CHR 0x5C, CHR ''r'']
      else if (of_char c :: nat) < 32 \<or> 127 \<le> (of_char c :: nat)
      then [CHR 0x5C, CHR ''x'', digit_char (of_char c div 16), digit_char (of_char c mod 16)]
      else [c])"

definition str_bytes :: "string \<Rightarrow> string" where
  "str_bytes bs =
     (let q = (if CHR 0x27 \<in> set bs \<and> CHR 0x22 \<notin> set bs then CHR 0x22 else CHR 0x27)
      in CHR ''b'' # q # concat (map (repr_byte q) bs) @ [q])"

text \<open>The slice \<^verbatim>\<open>s[2:-1]\<close>.\<close>

definition slice_2_m1 :: "string \<Rightarrow> string" where
  "slice_2_m1 s = butlast (drop 2 s)"

text \<open>\<^verbatim>\<open>s.replace("\\\\", "\\")\<close>: every pair of backslashes becomes one, left to right.\<close>

fun replace_bs :: "string \<Rightarrow> string" where
  "replace_bs (c # d # cs) =
     (if c = CHR 0x5C \<and> d = CHR 0x5C then CHR 0x5C # replace_bs cs
      else c # replace_bs (d # cs))"
| "replace_bs cs = cs"

text \<open>The decoding both units attributes go through in \<^verbatim>\<open>OsirisRawDataReader._ReadUnits\<close>.\<close>

definition decode_units :: "string \<Rightarrow> string" where
  "decode_units bs = replace_bs (slice_2_m1 (str_bytes bs))"

subsection \<open>Python exceptions, arrays and HDF5 files\<close>

datatype pyerror =
    OSError string
  | KeyError string
  | IndexError
  | TypeError
  | ValueError
  | NameError string
  | AttributeError string
  | RuntimeError string

text \<open>
  The arrays the readers handle: a one-dimensional float64 array (a coordinate, a momentum,
  a charge), a two-column integer array (the particle tags, one row per particle), and
  \<^verbatim>\<open>np.array(None)\<close>, the zero-dimensional object array numpy builds when
  \<^verbatim>\<open>file_content.get(name)\<close> finds no dataset of that name and returns \<^verbatim>\<open>None\<close>.
\<close>

datatype ndarray =
    NoneArray
  | FloatArray "f64 list"
  | IntPairArray "(int \<times> int) list"

text \<open>
  An opened HDF5 file, read only: its datasets by name, each with its \<^verbatim>\<open>UNITS\<close>
  attribute (an array of byte strings), and the file attributes the readers look up, each
  \<open>None\<close> when the file does not have it.
\<close>

record h5dataset =
  contents :: ndarray
  attr_UNITS :: "string list option"

record h5file =
  dsets :: "string \<Rightarrow> h5dataset option"
  attr_TIME :: "f64 list option"
  attr_TIME_UNITS :: "string list option"
  attr_NX :: "int list option"
  attr_XMAX :: "f64 list option"
  attr_XMIN :: "f64 list option"

text \<open>
  The object of the external \<^verbatim>\<open>opmd_viewer.OpenPMDTimeSeries\<close> class, by the part of
  its interface the reader uses: \<^verbatim>\<open>get_particle([name], species=..., iteration=...)\<close>,
  \<^verbatim>\<open>_find_output(None, iteration)\<close> (which sets \<^verbatim>\<open>_current_i\<close>), and the
  attributes \<^verbatim>\<open>t\<close>, \<^verbatim>\<open>h5_files\<close> and \<^verbatim>\<open>_current_i\<close>.
\<close>

record timeseries =
  ts_get_particle :: "string \<Rightarrow> string \<Rightarrow> int \<Rightarrow> pyerror + ndarray"
  ts_find_output :: "int \<Rightarrow> pyerror + nat"
  ts_t :: "f64 list"
  ts_h5_files :: "string list"
  ts_current_i :: nat

text \<open>
  The environment a reader runs in: the HDF5 files by path, and the \<^verbatim>\<open>opmd_viewer\<close>
  module when its import succeeded (\<^verbatim>\<open>openpmd_installed\<close>), given by what
  \<^verbatim>\<open>OpenPMDTimeSeries(location, check_all_files=False)\<close> returns.
\<close>

record env =
  files :: "string \<Rightarrow> h5file option"
  opmd_viewer :: "(string \<Rightarrow> pyerror + timeseries) option"

definition openpmd_installed :: "env \<Rightarrow> bool" where
  "openpmd_installed E = (opmd_viewer E \<noteq> None)"

subsection \<open>The reader object\<close>

text \<open>
  What a reader did, in order: the calls of the subclass methods and the operations on
  files. The list is not a field of the Python object; it is kept to state what a call
  performs (an extraction, a file left open).
\<close>

datatype event =
    CallReadData int
  | CallReadTime int
  | CallReadUnits
  | FileOpen string
  | FileClose string
  | DatasetRead string string
  | TimeSeriesOpen string
  | GetParticle string string int
  | FindOutput int

datatype backend = Osiris | HiPACE | OpenPMD

record reader =
  backend :: backend
  location :: string
  speciesName :: string
  dataName :: string
  internalName :: string
  firstTimeStep :: int
  dataUnits :: string
  timeUnits :: string
  currentTimeStep :: int
  currentTime :: "f64 option"
  data :: ndarray
  grid_resolution :: "int list option"
  grid_size :: "f64 list option"
  grid_units :: string
  openpmd_ts :: "timeseries option"
  trace :: "event list"

definition log_event :: "event \<Rightarrow> reader \<Rightarrow> reader" where
  "log_event ev self = self\<lparr>trace := trace self @ [ev]\<rparr>"

text \<open>The files opened and not closed since, oldest first.\<close>

fun handles_after :: "string list \<Rightarrow> event list \<Rightarrow> string list" where
  "handles_after hs [] = hs"
| "handles_after hs (FileOpen p # evs) = handles_after (hs @ [p]) evs"
| "handles_after hs (FileClose p # evs) = handles_after (remove1 p hs) evs"
| "handles_after hs (_ # evs) = handles_after hs evs"

definition open_handles :: "event list \<Rightarrow> string list" where
  "open_handles evs = handles_after [] evs"

text \<open>The number of \<^verbatim>\<open>_ReadData\<close> and of \<^verbatim>\<open>_ReadUnits\<close> calls in a trace.\<close>

fun is_extraction :: "event \<Rightarrow> bool" where
  "is_extraction (CallReadData _) = True"
| "is_extraction _ = False"

definition extractions :: "event list \<Rightarrow> nat" where
  "extractions evs = length (filter is_extraction evs)"

definition resolutions :: "event list \<Rightarrow> nat" where
  "resolutions evs = length (filter (\<lambda>ev. ev = CallReadUnits) evs)"

fun is_dataset_read :: "event \<Rightarrow> bool" where
  "is_dataset_read (DatasetRead _ _) = True"
| "is_dataset_read (GetParticle _ _ _) = True"
| "is_dataset_read _ = False"

fun is_file_open :: "event \<Rightarrow> bool" where
  "is_file_open (FileOpen _) = True"
| "is_file_open (TimeSeriesOpen _) = True"
| "is_file_open _ = False"

subsection \<open>Operations on an opened file\<close>

text \<open>\<^verbatim>\<open>H5File(file_path, 'r')\<close> raises when there is no such file.\<close>

definition H5File :: "env \<Rightarrow> string \<Rightarrow> reader \<Rightarrow> (pyerror + string \<times> h5file) \<times> reader" where
  "H5File E file_path self =
     (case files E file_path of
        None \<Rightarrow> (Inl (OSError file_path), self)
      | Some file_content \<Rightarrow> (Inr (file_path, file_content), log_event (FileOpen file_path) self))"

definition h5_close :: "string \<Rightarrow> reader \<Rightarrow> reader" where
  "h5_close file_path self = log_event (FileClose file_path) self"

text \<open>\<^verbatim>\<open>np.array(file_content.get(name))\<close>: \<^verbatim>\<open>get\<close> returns \<^verbatim>\<open>None\<close> for a missing name.\<close>

definition np_array_get :: "h5file \<Rightarrow> string \<Rightarrow> ndarray" where
  "np_array_get file_content name =
     (case dsets file_content name of None \<Rightarrow> NoneArray | Some d \<Rightarrow> contents d)"

text \<open>\<^verbatim>\<open>attrs[name][0]\<close>, and \<^verbatim>\<open>attrs[name]\<close>.\<close>

definition attr_first :: "string \<Rightarrow> 'a list option \<Rightarrow> pyerror + 'a" where
  "attr_first name v =
     (case v of
        None \<Rightarrow> Inl (KeyError name)
      | Some [] \<Rightarrow> Inl IndexError
      | Some (x # _) \<Rightarrow> Inr x)"

definition attr_get :: "string \<Rightarrow> 'a option \<Rightarrow> pyerror + 'a" where
  "attr_get name v = (case v of None \<Rightarrow> Inl (KeyError name) | Some x \<Rightarrow> Inr x)"

text \<open>\<^verbatim>\<open>list(file_content[name].attrs["UNITS"])[0]\<close>: indexing the file raises for a missing name.\<close>

definition dataset_units :: "h5file \<Rightarrow> string \<Rightarrow> pyerror + string" where
  "dataset_units file_content name =
     (case dsets file_content name of
        None \<Rightarrow> Inl (KeyError name)
      | Some d \<Rightarrow> attr_first ''UNITS'' (attr_UNITS d))"

text \<open>
  The Cantor pairing as the source computes it, \<^verbatim>\<open>1/2*(a+b)*(a+b+1)+b\<close>:
  \<^verbatim>\<open>1/2\<close> is the Python float \<^verbatim>\<open>0.5\<close>, so every product and the final sum are
  float64 operations on the integer columns cast to float64. The integer sums
  \<^verbatim>\<open>a+b\<close> and \<^verbatim>\<open>a+b+1\<close> are taken in the integer type of the dataset, assumed
  wide enough for them.
\<close>

definition cantor_pairing :: "int \<Rightarrow> int \<Rightarrow> f64" where
  "cantor_pairing a b = fadd (fmul (fmul (1 / 2) (i2f (a + b))) (i2f (a + b + 1))) (i2f b)"

text \<open>
  \<^verbatim>\<open>a = tags[:,0]; b = tags[:,1]; data = 1/2*(a+b)*(a+b+1)+b\<close>. The two-index
  subscript raises on an array that is not two-dimensional.
\<close>

definition tag_ids :: "ndarray \<Rightarrow> pyerror + ndarray" where
  "tag_ids tags =
     (case tags of
        IntPairArray ps \<Rightarrow> Inr (FloatArray (map (\<lambda>(a, b). cantor_pairing a b) ps))
      | _ \<Rightarrow> Inl IndexError)"

text \<open>
  \<^verbatim>\<open>data += self.currentTime\<close>: the in-place sum of a float64 array and a float64
  scalar. On an integer array the result cannot be cast back, on \<^verbatim>\<open>np.array(None)\<close>
  \<^verbatim>\<open>None\<close> has no sum with a float; both raise TypeError.
\<close>

definition iadd_scalar :: "ndarray \<Rightarrow> f64 \<Rightarrow> pyerror + ndarray" where
  "iadd_scalar d tm =
     (case d of
        FloatArray xs \<Rightarrow> Inr (FloatArray (map (\<lambda>x. fadd x tm) xs))
      | _ \<Rightarrow> Inl TypeError)"

text \<open>
  \<^verbatim>\<open>np.array(xmax) - np.array(xmin)\<close> on one-dimensional arrays: elementwise, an array
  of length one broadcast against the other, ValueError for other lengths.
\<close>

definition np_sub :: "f64 list \<Rightarrow> f64 list \<Rightarrow> pyerror + f64 list" where
  "np_sub xs ys =
     (if length xs = length ys then Inr (map (\<lambda>(x, y). fsub x y) (zip xs ys))
      else case (xs, ys) of
             (_, [y]) \<Rightarrow> Inr (map (\<lambda>x. fsub x y) xs)
           | ([x], _) \<Rightarrow> Inr (map (\<lambda>y. fsub x y) ys)
           | _ \<Rightarrow> Inl ValueError)"

text \<open>The string \<^verbatim>\<open>'c/ \omega_p'\<close> and its like: the backslash stands for itself.\<close>

definition c_over_omega_p :: string where
  "c_over_omega_p = ''c/ '' @ [CHR 0x5C] @ ''omega_p''"

definition one_over_omega_p :: string where
  "one_over_omega_p = ''1/ '' @ [CHR 0x5C] @ ''omega_p''"

subsection \<open>OsirisRawDataReader\<close>

definition Osiris_OpenFile :: "env \<Rightarrow> int \<Rightarrow> reader \<Rightarrow> (pyerror + string \<times> h5file) \<times> reader" where
  "Osiris_OpenFile E timeStep self =
     (let fileName = ''RAW-'' @ speciesName self @ ''-'' @ zfill 6 (str_int timeStep);
          ending = ''.h5'';
          file_path = location self @ ''/'' @ fileName @ ending
      in H5File E file_path self)"

definition Osiris_ReadData :: "env \<Rightarrow> int \<Rightarrow> reader \<Rightarrow> (pyerror + ndarray) \<times> reader" where
  "Osiris_ReadData E timeStep self =
     (case Osiris_OpenFile E timeStep self of
        (Inl e, s1) \<Rightarrow> (Inl e, s1)
      | (Inr (file_path, file_content), s1) \<Rightarrow>
          (let s2 = log_event (DatasetRead file_path (internalName s1)) s1
           in case (if internalName s2 = ''tag''
                    then tag_ids (np_array_get file_content (internalName s2))
                    else Inr (np_array_get file_content (internalName s2))) of
                Inl e \<Rightarrow> (Inl e, s2)
              | Inr d \<Rightarrow>
                  (case attr_first ''TIME'' (attr_TIME file_content) of
                     Inl e \<Rightarrow> (Inl e, s2)
                   | Inr tm \<Rightarrow> (Inr d, h5_close file_path (s2\<lparr>currentTime := Some tm\<rparr>)))))"

definition Osiris_ReadTime :: "env \<Rightarrow> int \<Rightarrow> reader \<Rightarrow> (pyerror + unit) \<times> reader" where
  "Osiris_ReadTime E timeStep self =
     (case Osiris_OpenFile E timeStep self of
        (Inl e, s1) \<Rightarrow> (Inl e, s1)
      | (Inr (file_path, file_content), s1) \<Rightarrow>
          (case attr_first ''TIME'' (attr_TIME file_content) of
             Inl e \<Rightarrow> (Inl e, s1)
           | Inr tm \<Rightarrow> (Inr (), h5_close file_path (s1\<lparr>currentTime := Some tm\<rparr>))))"

definition Osiris_ReadUnits :: "env \<Rightarrow> reader \<Rightarrow> (pyerror + unit) \<times> reader" where
  "Osiris_ReadUnits E self =
     (case Osiris_OpenFile E (firstTimeStep self) self of
        (Inl e, s1) \<Rightarrow> (Inl e, s1)
      | (Inr (file_path, file_content), s1) \<Rightarrow>
          (case dataset_units file_content (internalName s1) of
             Inl e \<Rightarrow> (Inl e, s1)
           | Inr u \<Rightarrow>
               (let s2 = s1\<lparr>dataUnits := decode_units u\<rparr>
                in case attr_first ''TIME UNITS'' (attr_TIME_UNITS file_content) of
                     Inl e \<Rightarrow> (Inl e, s2)
                   | Inr tu \<Rightarrow> (Inr (), h5_close file_path (s2\<lparr>timeUnits := decode_units tu\<rparr>)))))"

definition Osiris_ReadSimulationProperties :: "h5file \<Rightarrow> reader \<Rightarrow> (pyerror + unit) \<times> reader" where
  "Osiris_ReadSimulationProperties file_content self =
     (case attr_get ''NX'' (attr_NX file_content) of
        Inl e \<Rightarrow> (Inl e, self)
      | Inr nx \<Rightarrow>
          (let s1 = self\<lparr>grid_resolution := Some nx\<rparr>
           in case attr_get ''XMAX'' (attr_XMAX file_content) of
                Inl e \<Rightarrow> (Inl e, s1)
              | Inr xmax \<Rightarrow>
                  (case attr_get ''XMIN'' (attr_XMIN file_content) of
                     Inl e \<Rightarrow> (Inl e, s1)
                   | Inr xmin \<Rightarrow>
                       (case np_sub xmax xmin of
                          Inl e \<Rightarrow> (Inl e, s1)
                        | Inr sz \<Rightarrow>
                            (Inr (), s1\<lparr>grid_size := Some sz, grid_units := c_over_omega_p\<rparr>)))))"

definition Osiris_ReadBasicData :: "env \<Rightarrow> reader \<Rightarrow> (pyerror + unit) \<times> reader" where
  "Osiris_ReadBasicData E self =
     (case Osiris_OpenFile E (firstTimeStep self) self of
        (Inl e, s1) \<Rightarrow> (Inl e, s1)
      | (Inr (file_path, file_content), s1) \<Rightarrow>
          (case Osiris_ReadSimulationProperties file_content s1 of
             (Inl e, s2) \<Rightarrow> (Inl e, s2)
           | (Inr u, s2) \<Rightarrow> (Inr (), h5_close file_path s2)))"

subsection \<open>HiPACERawDataReader\<close>

definition HiPACE_OpenFile :: "env \<Rightarrow> int \<Rightarrow> reader \<Rightarrow> (pyerror + string \<times> h5file) \<times> reader" where
  "HiPACE_OpenFile E timeStep self =
     (let fileName = ''raw_'' @ speciesName self @ ''_'' @ zfill 6 (str_int timeStep);
          ending = ''.h5'';
          file_path = location self @ ''/'' @ fileName @ ending
      in H5File E file_path self)"

definition HiPACE_ReadData :: "env \<Rightarrow> int \<Rightarrow> reader \<Rightarrow> (pyerror + ndarray) \<times> reader" where
  "HiPACE_ReadData E timeStep self =
     (case HiPACE_OpenFile E timeStep self of
        (Inl e, s1) \<Rightarrow> (Inl e, s1)
      | (Inr (file_path, file_content), s1) \<Rightarrow>
          (let s2 = log_event (DatasetRead file_path (internalName s1)) s1
           in case (if internalName s2 = ''tag''
                    then tag_ids (np_array_get file_content (internalName s2))
                    else Inr (np_array_get file_content (internalName s2))) of
                Inl e \<Rightarrow> (Inl e, s2)
              | Inr d \<Rightarrow>
                  (case attr_first ''TIME'' (attr_TIME file_content) of
                     Inl e \<Rightarrow> (Inl e, s2)
                   | Inr tm \<Rightarrow>
                       (let s3 = s2\<lparr>currentTime := Some tm\<rparr>
                        in case (if internalName s3 = ''x1'' then iadd_scalar d tm else Inr d) of
                             Inl e \<Rightarrow> (Inl e, s3)
                           | Inr d' \<Rightarrow> (Inr d', h5_close file_path s3)))))"

definition HiPACE_ReadTime :: "env \<Rightarrow> int \<Rightarrow> reader \<Rightarrow> (pyerror + unit) \<times> reader" where
  "HiPACE_ReadTime E timeStep self =
     (case HiPACE_OpenFile E timeStep self of
        (Inl e, s1) \<Rightarrow> (Inl e, s1)
      | (Inr (file_path, file_content), s1) \<Rightarrow>
          (case attr_first ''TIME'' (attr_TIME file_content) of
             Inl e \<Rightarrow> (Inl e, s1)
           | Inr tm \<Rightarrow> (Inr (), h5_close file_path (s1\<lparr>currentTime := Some tm\<rparr>))))"

definition HiPACE_ReadUnits :: "reader \<Rightarrow> (pyerror + unit) \<times> reader" where
  "HiPACE_ReadUnits self =
     (let s1 =
        (if dataName self = ''x1'' \<or> dataName self = ''x2'' \<or> dataName self = ''x3''
         then self\<lparr>dataUnits := c_over_omega_p\<rparr>
         else if dataName self = ''p1'' \<or> dataName self = ''p2'' \<or> dataName self = ''p3''
         then self\<lparr>dataUnits := ''m_e c''\<rparr>
         else if dataName self = ''q''
         then self\<lparr>dataUnits := ''e''\<rparr>
         else self\<lparr>dataUnits := ''unknown''\<rparr>)
      in (Inr (), s1\<lparr>timeUnits := one_over_omega_p\<rparr>))"

definition HiPACE_ReadSimulationProperties :: "h5file \<Rightarrow> reader \<Rightarrow> (pyerror + unit) \<times> reader" where
  "HiPACE_ReadSimulationProperties file_content self =
     (case attr_get ''NX'' (attr_NX file_content) of
        Inl e \<Rightarrow> (Inl e, self)
      | Inr nx \<Rightarrow>
          (let s1 = self\<lparr>grid_resolution := Some nx\<rparr>
           in case attr_get ''XMAX'' (attr_XMAX file_content) of
                Inl e \<Rightarrow> (Inl e, s1)
              | Inr xmax \<Rightarrow>
                  (case attr_get ''XMIN'' (attr_XMIN file_content) of
                     Inl e \<Rightarrow> (Inl e, s1)
                   | Inr xmin \<Rightarrow>
                       (case np_sub xmax xmin of
                          Inl e \<Rightarrow> (Inl e, s1)
                        | Inr sz \<Rightarrow>
                            (Inr (), s1\<lparr>grid_size := Some sz, grid_units := c_over_omega_p\<rparr>)))))"

definition HiPACE_ReadBasicData :: "env \<Rightarrow> reader \<Rightarrow> (pyerror + unit) \<times> reader" where
  "HiPACE_ReadBasicData E self =
     (case HiPACE_OpenFile E (firstTimeStep self) self of
        (Inl e, s1) \<Rightarrow> (Inl e, s1)
      | (Inr (file_path, file_content), s1) \<Rightarrow>
          (case HiPACE_ReadSimulationProperties file_content s1 of
             (Inl e, s2) \<Rightarrow> (Inl e, s2)
           | (Inr u, s2) \<Rightarrow> (Inr (), h5_close file_path s2)))"

subsection \<open>OpenPMDRawDataReader\<close>

text \<open>
  \<^verbatim>\<open>self.openpmd_ts._find_output(None, timeStep)\<close>: the collaborator resolves the
  iteration to a slot and stores it in \<^verbatim>\<open>_current_i\<close>. The updated collaborator is
  returned for the reads that follow.
\<close>

definition OpenPMD_find_output :: "int \<Rightarrow> reader \<Rightarrow> (pyerror + timeseries) \<times> reader" where
  "OpenPMD_find_output timeStep self =
     (case openpmd_ts self of
        None \<Rightarrow> (Inl (AttributeError ''openpmd_ts''), self)
      | Some ts \<Rightarrow>
          (let s1 = log_event (FindOutput timeStep) self
           in case ts_find_output ts timeStep of
                Inl e \<Rightarrow> (Inl e, s1)
              | Inr i \<Rightarrow>
                  (let ts' = ts\<lparr>ts_current_i := i\<rparr>
                   in (Inr ts', s1\<lparr>openpmd_ts := Some ts'\<rparr>))))"

definition OpenPMD_ReadTime :: "int \<Rightarrow> reader \<Rightarrow> (pyerror + unit) \<times> reader" where
  "OpenPMD_ReadTime timeStep self =
     (case OpenPMD_find_output timeStep self of
        (Inl e, s1) \<Rightarrow> (Inl e, s1)
      | (Inr ts, s1) \<Rightarrow>
          (if ts_current_i ts < length (ts_t ts)
           then (Inr (), s1\<lparr>currentTime := Some (ts_t ts ! ts_current_i ts)\<rparr>)
           else (Inl IndexError, s1)))"

definition OpenPMD_ReadUnits :: "reader \<Rightarrow> (pyerror + unit) \<times> reader" where
  "OpenPMD_ReadUnits self = (Inr (), self\<lparr>dataUnits := ''arb.u.'', timeUnits := ''s''\<rparr>)"

definition OpenPMD_OpenFile :: "env \<Rightarrow> int \<Rightarrow> reader \<Rightarrow> (pyerror + string \<times> h5file) \<times> reader" where
  "OpenPMD_OpenFile E timeStep self =
     (case OpenPMD_find_output timeStep self of
        (Inl e, s1) \<Rightarrow> (Inl e, s1)
      | (Inr ts, s1) \<Rightarrow>
          (if ts_current_i ts < length (ts_h5_files ts)
           then H5File E (ts_h5_files ts ! ts_current_i ts) s1
           else (Inl IndexError, s1)))"

definition OpenPMD_ReadSimulationProperties :: "h5file \<Rightarrow> reader \<Rightarrow> (pyerror + unit) \<times> reader" where
  "OpenPMD_ReadSimulationProperties file_content self =
     (Inr (), self\<lparr>grid_resolution := None, grid_size := None, grid_units := ''m''\<rparr>)"

definition OpenPMD_ReadBasicData :: "env \<Rightarrow> reader \<Rightarrow> (pyerror + unit) \<times> reader" where
  "OpenPMD_ReadBasicData E self =
     (case OpenPMD_OpenFile E (firstTimeStep self) self of
        (Inl e, s1) \<Rightarrow> (Inl e, s1)
      | (Inr (file_path, file_content), s1) \<Rightarrow>
          (case OpenPMD_ReadSimulationProperties file_content s1 of
             (Inl e, s2) \<Rightarrow> (Inl e, s2)
           | (Inr u, s2) \<Rightarrow> (Inr (), h5_close file_path s2)))"

subsection \<open>RawDataReaderBase\<close>

text \<open>
  The calls \<^verbatim>\<open>self._ReadTime(timeStep)\<close>, \<^verbatim>\<open>self._ReadData(timeStep)\<close>,
  \<^verbatim>\<open>self._ReadUnits()\<close> and \<^verbatim>\<open>self._ReadBasicData()\<close> go to the method of the
  object's class; the first three are recorded in the trace.
\<close>

definition ReadTime :: "env \<Rightarrow> int \<Rightarrow> reader \<Rightarrow> (pyerror + unit) \<times> reader" where
  "ReadTime E timeStep self =
     (let s0 = log_event (CallReadTime timeStep) self
      in case backend s0 of
           Osiris \<Rightarrow> Osiris_ReadTime E timeStep s0
         | HiPACE \<Rightarrow> HiPACE_ReadTime E timeStep s0
         | OpenPMD \<Rightarrow> OpenPMD_ReadTime timeStep s0)"

text \<open>
  \<^verbatim>\<open>OpenPMDRawDataReader._ReadData\<close>: \<^verbatim>\<open>_ReadTime\<close> stores the time and returns
  nothing, so the assignment \<^verbatim>\<open>self.currentTime = self._ReadTime(timeStep)\<close> leaves
  \<^verbatim>\<open>None\<close> in \<^verbatim>\<open>currentTime\<close>.
\<close>

definition OpenPMD_ReadData :: "env \<Rightarrow> int \<Rightarrow> reader \<Rightarrow> (pyerror + ndarray) \<times> reader" where
  "OpenPMD_ReadData E timeStep self =
     (case openpmd_ts self of
        None \<Rightarrow> (Inl (AttributeError ''openpmd_ts''), self)
      | Some ts \<Rightarrow>
          (let s1 = log_event (GetParticle (internalName self) (speciesName self) timeStep) self
           in case ts_get_particle ts (internalName s1) (speciesName s1) timeStep of
                Inl e \<Rightarrow> (Inl e, s1)
              | Inr d \<Rightarrow>
                  (case ReadTime E timeStep s1 of
                     (Inl e, s2) \<Rightarrow> (Inl e, s2)
                   | (Inr u, s2) \<Rightarrow> (Inr d, s2\<lparr>currentTime := None\<rparr>))))"

definition ReadData :: "env \<Rightarrow> int \<Rightarrow> reader \<Rightarrow> (pyerror + ndarray) \<times> reader" where
  "ReadData E timeStep self =
     (let s0 = log_event (CallReadData timeStep) self
      in case backend s0 of
           Osiris \<Rightarrow> Osiris_ReadData E timeStep s0
         | HiPACE \<Rightarrow> HiPACE_ReadData E timeStep s0
         | OpenPMD \<Rightarrow> OpenPMD_ReadData E timeStep s0)"

definition ReadUnits :: "env \<Rightarrow> reader \<Rightarrow> (pyerror + unit) \<times> reader" where
  "ReadUnits E self =
     (let s0 = log_event CallReadUnits self
      in case backend s0 of
           Osiris \<Rightarrow> Osiris_ReadUnits E s0
         | HiPACE \<Rightarrow> HiPACE_ReadUnits s0
         | OpenPMD \<Rightarrow> OpenPMD_ReadUnits s0)"

definition ReadBasicData :: "env \<Rightarrow> reader \<Rightarrow> (pyerror + unit) \<times> reader" where
  "ReadBasicData E self =
     (case backend self of
        Osiris \<Rightarrow> Osiris_ReadBasicData E self
      | HiPACE \<Rightarrow> HiPACE_ReadBasicData E self
      | OpenPMD \<Rightarrow> OpenPMD_ReadBasicData E self)"

definition GetData :: "env \<Rightarrow> int \<Rightarrow> reader \<Rightarrow> (pyerror + ndarray) \<times> reader" where
  "GetData E timeStep self =
     (if timeStep \<noteq> currentTimeStep self
      then case ReadData E timeStep (self\<lparr>currentTimeStep := timeStep\<rparr>) of
             (Inl e, s1) \<Rightarrow> (Inl e, s1)
           | (Inr d, s1) \<Rightarrow> (Inr d, s1\<lparr>data := d\<rparr>)
      else (Inr (data self), self))"

definition GetDataUnits :: "env \<Rightarrow> reader \<Rightarrow> (pyerror + string) \<times> reader" where
  "GetDataUnits E self =
     (if dataUnits self = []
      then case ReadUnits E self of
             (Inl e, s1) \<Rightarrow> (Inl e, s1)
           | (Inr u, s1) \<Rightarrow> (Inr (dataUnits s1), s1)
      else (Inr (dataUnits self), self))"

definition GetTime :: "env \<Rightarrow> int \<Rightarrow> reader \<Rightarrow> (pyerror + f64 option) \<times> reader" where
  "GetTime E timeStep self =
     (if timeStep \<noteq> currentTimeStep self
      then case ReadTime E timeStep (self\<lparr>currentTimeStep := timeStep\<rparr>) of
             (Inl e, s1) \<Rightarrow> (Inl e, s1)
           | (Inr u, s1) \<Rightarrow> (Inr (currentTime s1), s1)
      else (Inr (currentTime self), self))"

definition GetTimeUnits :: "env \<Rightarrow> reader \<Rightarrow> (pyerror + string) \<times> reader" where
  "GetTimeUnits E self =
     (if timeUnits self = []
      then case ReadUnits E self of
             (Inl e, s1) \<Rightarrow> (Inl e, s1)
           | (Inr u, s1) \<Rightarrow> (Inr (timeUnits s1), s1)
      else (Inr (timeUnits self), self))"

subsection \<open>Construction\<close>

text \<open>
  Modelled from the spec: \<^verbatim>\<open>DataReader.__init__\<close>, of
  \<^verbatim>\<open>VisualPIC.DataReading.dataReader\<close>, which is not among the sources. It stores the
  quantity descriptor in the attribute slots the spec lists, sets both units to the empty
  string (not yet resolved) and \<^verbatim>\<open>currentTimeStep\<close> to a sentinel meaning that no
  timestep was served. The spec does not give the sentinel: it is the parameter
  \<open>noTimeStep\<close>. The slots \<^verbatim>\<open>currentTime\<close> and \<^verbatim>\<open>data\<close>, of which the spec gives
  no initial content, keep what the object \<open>self\<close> comes with.
\<close>

definition DataReader_init ::
  "int \<Rightarrow> reader \<Rightarrow> string \<Rightarrow> string \<Rightarrow> string \<Rightarrow> string \<Rightarrow> reader" where
  "DataReader_init noTimeStep self location' speciesName' dataName' internalName' =
     self\<lparr>location := location', speciesName := speciesName', dataName := dataName',
          internalName := internalName', dataUnits := [], timeUnits := [],
          currentTimeStep := noTimeStep\<rparr>"

definition RawDataReaderBase_init ::
  "env \<Rightarrow> int \<Rightarrow> reader \<Rightarrow> string \<Rightarrow> string \<Rightarrow> string \<Rightarrow> string \<Rightarrow> int
     \<Rightarrow> (pyerror + unit) \<times> reader" where
  "RawDataReaderBase_init E noTimeStep self location' speciesName' dataName' internalName' firstTimeStep' =
     (let s1 = DataReader_init noTimeStep self location' speciesName' dataName' internalName';
          s2 = s1\<lparr>internalName := dataName'\<rparr>;
          s3 = s2\<lparr>firstTimeStep := firstTimeStep'\<rparr>
      in ReadBasicData E s3)"

definition OsirisRawDataReader_init ::
  "env \<Rightarrow> int \<Rightarrow> reader \<Rightarrow> string \<Rightarrow> string \<Rightarrow> string \<Rightarrow> string \<Rightarrow> int
     \<Rightarrow> (pyerror + unit) \<times> reader" where
  "OsirisRawDataReader_init E noTimeStep self location' speciesName' dataName' internalName' firstTimeStep' =
     RawDataReaderBase_init E noTimeStep (self\<lparr>backend := Osiris\<rparr>)
       location' speciesName' dataName' internalName' firstTimeStep'"

definition HiPACERawDataReader_init ::
  "env \<Rightarrow> int \<Rightarrow> reader \<Rightarrow> string \<Rightarrow> string \<Rightarrow> string \<Rightarrow> string \<Rightarrow> int
     \<Rightarrow> (pyerror + unit) \<times> reader" where
  "HiPACERawDataReader_init E noTimeStep self location' speciesName' dataName' internalName' firstTimeStep' =
     RawDataReaderBase_init E noTimeStep (self\<lparr>backend := HiPACE\<rparr>)
       location' speciesName' dataName' internalName' firstTimeStep'"

text \<open>
  \<^verbatim>\<open>OpenPMDRawDataReader.__init__\<close>. The source raises with
  \<^verbatim>\<open>raise RunTimeError("You need to install openPMD-viewer, ...")\<close>; Python has no
  name \<^verbatim>\<open>RunTimeError\<close> (the builtin is \<^verbatim>\<open>RuntimeError\<close>) and the module defines
  none, so evaluating the name raises NameError before the message is used. The name
  \<^verbatim>\<open>OpenPMDTimeSeries\<close> is bound only when the import succeeded.
\<close>

definition install_message :: string where
  "install_message =
     ''You need to install openPMD-viewer, e.g. with:'' @ [CHR 0x0A] @ ''pip install openPMD-viewer''"

definition OpenPMDRawDataReader_init ::
  "env \<Rightarrow> int \<Rightarrow> reader \<Rightarrow> string \<Rightarrow> string \<Rightarrow> string \<Rightarrow> string \<Rightarrow> int
     \<Rightarrow> (pyerror + unit) \<times> reader" where
  "OpenPMDRawDataReader_init E noTimeStep self location' speciesName' dataName' internalName' firstTimeStep' =
     (if \<not> openpmd_installed E then (Inl (NameError ''RunTimeError''), self)
      else case opmd_viewer E of
             None \<Rightarrow> (Inl (NameError ''OpenPMDTimeSeries''), self)
           | Some OpenPMDTimeSeries \<Rightarrow>
               (let s0 = log_event (TimeSeriesOpen location') self
                in case OpenPMDTimeSeries location' of
                     Inl e \<Rightarrow> (Inl e, s0)
                   | Inr ts \<Rightarrow>
                       RawDataReaderBase_init E noTimeStep
                         (s0\<lparr>backend := OpenPMD, openpmd_ts := Some ts\<rparr>)
                         location' speciesName' dataName' internalName' firstTimeStep'))"


subsection \<open>The reference formula of the spec\<close>

text \<open>
  The spec states the scalar id of a tag pair as \<open>(a+b)*(a+b+1)/2 + b\<close>. This is that
  formula over the integers, to compare \<open>cantor_pairing\<close> with; the product of two
  consecutive integers is even, so the division is exact.
\<close>

definition cantor_reference :: "int \<Rightarrow> int \<Rightarrow> int" where
  "cantor_reference a b = (a + b) * (a + b + 1) div 2 + b"

subsection \<open>What the file operations leave alone\<close>

text \<open>
  \<open>kept s s'\<close>: \<open>s'\<close> has the descriptor, the cached timestep and the cached data of
  \<open>s\<close>, and its trace holds as many \<^verbatim>\<open>_ReadData\<close> and \<^verbatim>\<open>_ReadUnits\<close> calls.
\<close>

definition kept :: "reader \<Rightarrow> reader \<Rightarrow> bool" where
  "kept s s' =
     (backend s' = backend s \<and> location s' = location s \<and> speciesName s' = speciesName s \<and>
      dataName s' = dataName s \<and> internalName s' = internalName s \<and>
      firstTimeStep s' = firstTimeStep s \<and> currentTimeStep s' = currentTimeStep s \<and>
      data s' = data s \<and> extractions (trace s') = extractions (trace s) \<and>
      resolutions (trace s') = resolutions (trace s))"

subsection \<open>A concrete run directory\<close>

text \<open>
  Inputs for the theorems on concrete runs: a file with the datasets \<^verbatim>\<open>x1\<close>,
  \<^verbatim>\<open>q\<close> and \<^verbatim>\<open>tag\<close> (the tags carry an empty \<^verbatim>\<open>UNITS\<close> string), a directory
  \<^verbatim>\<open>sim\<close> with the OSIRIS files of the timesteps 1 and 2, an OSIRIS file of timestep 3
  that lacks the \<^verbatim>\<open>TIME\<close> attribute, no file for timestep 4, a HiPACE file of timestep
  1, and no \<^verbatim>\<open>opmd_viewer\<close> module; and the object a constructor starts from.
\<close>

definition ex_file :: "f64 list \<Rightarrow> f64 \<Rightarrow> h5file" where
  "ex_file xs tm =
     \<lparr>dsets = (\<lambda>name.
         if name = ''x1'' then Some \<lparr>contents = FloatArray xs, attr_UNITS = Some [c_over_omega_p]\<rparr>
         else if name = ''q'' then Some \<lparr>contents = FloatArray [- 1, - 1], attr_UNITS = Some [''e'']\<rparr>
         else if name = ''tag''
         then Some \<lparr>contents = IntPairArray [(3, 5), (0, 0)], attr_UNITS = Some [[]]\<rparr>
         else None),
      attr_TIME = Some [tm],
      attr_TIME_UNITS = Some [one_over_omega_p],
      attr_NX = Some [64],
      attr_XMAX = Some [10],
      attr_XMIN = Some [0]\<rparr>"

definition ex_env :: env where
  "ex_env =
     \<lparr>files = (\<lambda>p.
         if p = ''sim/RAW-electrons-000001.h5'' then Some (ex_file [1, - 1 / 2] (5 / 2))
         else if p = ''sim/RAW-electrons-000002.h5'' then Some (ex_file [2, 3] 5)
         else if p = ''sim/RAW-electrons-000003.h5'' then Some ((ex_file [4] 0)\<lparr>attr_TIME := None\<rparr>)
         else if p = ''sim/raw_electrons_000001.h5'' then Some (ex_file [1, - 1 / 2] (5 / 2))
         else None),
      opmd_viewer = None\<rparr>"

definition ex_object :: reader where
  "ex_object =
     \<lparr>backend = Osiris, location = [], speciesName = [], dataName = [], internalName = [],
      firstTimeStep = 0, dataUnits = [], timeUnits = [], currentTimeStep = 0,
      currentTime = None, data = NoneArray, grid_resolution = None, grid_size = None,
      grid_units = [], openpmd_ts = None, trace = []\<rparr>"

text \<open>
  The readers of the run: constructed for the species \<^verbatim>\<open>electrons\<close>, bootstrap timestep
  1 and sentinel \<open>-1\<close>, with an \<^verbatim>\<open>internalName\<close> argument that differs from the
  \<^verbatim>\<open>dataName\<close>.
\<close>

definition ex_osiris :: "string \<Rightarrow> reader" where
  "ex_osiris name =
     snd (OsirisRawDataReader_init ex_env (- 1) ex_object ''sim'' ''electrons'' name ''on_disk'' 1)"

definition ex_hipace :: "string \<Rightarrow> reader" where
  "ex_hipace name =
     snd (HiPACERawDataReader_init ex_env (- 1) ex_object ''sim'' ''electrons'' name ''on_disk'' 1)"

section \<open>Proofs\<close>

subsection \<open>Rounding to float64\<close>

lemma pow2_less_imp: "(2::real) powi a < 2 powi b \<Longrightarrow> a < b"
proof (rule ccontr)
  assume h: "(2::real) powi a < 2 powi b" and n: "\<not> a < b"
  then have "b \<le> a" by simp
  then have "(2::real) powi b \<le> 2 powi a" by (rule power_int_increasing) simp
  with h show False by simp
qed

lemma ilog2_lower: assumes "x \<noteq> 0" shows "2 powi (ilog2 x) \<le> \<bar>x\<bar>"
proof (cases "1 \<le> \<bar>x\<bar>")
  case True
  define n where "n = nat \<lfloor>\<bar>x\<bar>\<rfloor>"
  have n1: "0 < n" using True by (simp add: n_def)
  have k1: "0 < floorlog 2 n" using n1 by (simp add: floorlog_def)
  have "(2::nat) ^ (floorlog 2 n - 1) \<le> n" using floorlog_bounds[of n 2] n1 by simp
  then have "(of_nat ((2::nat) ^ (floorlog 2 n - 1)) :: real) \<le> of_nat n"
    using of_nat_le_iff by blast
  also have "(of_nat n :: real) \<le> \<bar>x\<bar>" using True by (simp add: n_def)
  finally have "(2::real) ^ (floorlog 2 n - 1) \<le> \<bar>x\<bar>" by simp
  moreover have "ilog2 x = int (floorlog 2 n - 1)" using True k1 by (simp add: ilog2_def n_def)
  ultimately show ?thesis by simp
next
  case False
  define c where "c = \<lceil>1 / \<bar>x\<bar>\<rceil>"
  define m where "m = nat (c - 1)"
  define k where "k = floorlog 2 m"
  have xp: "0 < \<bar>x\<bar>" using assms by simp
  have "m < 2 ^ k" by (simp add: floorlog_leD k_def)
  then have "int m < 2 ^ k" using of_nat_less_iff[of m "2 ^ k", where ?'a = int] by simp
  moreover have "c - 1 \<le> int m" by (simp add: m_def)
  ultimately have "c - 1 < 2 ^ k" by linarith
  then have "c \<le> 2 ^ k" by simp
  then have "(of_int c :: real) \<le> of_int (2 ^ k)" using of_int_le_iff by blast
  moreover have "1 / \<bar>x\<bar> \<le> of_int c" unfolding c_def by (rule le_of_int_ceiling)
  moreover have "(of_int (2 ^ k) :: real) = 2 ^ k" by simp
  ultimately have "1 / \<bar>x\<bar> \<le> 2 ^ k" by linarith
  then have "1 \<le> 2 ^ k * \<bar>x\<bar>" using xp by (simp add: pos_divide_le_eq)
  then have "1 / 2 ^ k \<le> \<bar>x\<bar>" by (simp add: pos_divide_le_eq mult.commute)
  moreover have "ilog2 x = - int k" using False by (simp add: ilog2_def k_def m_def c_def)
  ultimately show ?thesis by (simp add: power_int_minus_divide)
qed

lemma ilog2_upper: assumes "x \<noteq> 0" shows "\<bar>x\<bar> < 2 powi (ilog2 x + 1)"
proof (cases "1 \<le> \<bar>x\<bar>")
  case True
  define n where "n = nat \<lfloor>\<bar>x\<bar>\<rfloor>"
  have n1: "0 < n" using True by (simp add: n_def)
  have k1: "0 < floorlog 2 n" using n1 by (simp add: floorlog_def)
  have "n < (2::nat) ^ (floorlog 2 n)" using floorlog_bounds[of n 2] n1 by simp
  then have "n + 1 \<le> (2::nat) ^ (floorlog 2 n)" by simp
  then have "(of_nat (n + 1) :: real) \<le> of_nat ((2::nat) ^ (floorlog 2 n))"
    using of_nat_le_iff by blast
  moreover have "\<bar>x\<bar> < of_nat (n + 1)"
  proof -
    have "\<bar>x\<bar> < of_int (\<lfloor>\<bar>x\<bar>\<rfloor> + 1)" by linarith
    moreover have "int (n + 1) = \<lfloor>\<bar>x\<bar>\<rfloor> + 1" using True by (simp add: n_def)
    ultimately show ?thesis by (metis of_int_of_nat_eq)
  qed
  ultimately have "\<bar>x\<bar> < 2 ^ (floorlog 2 n)" by simp
  moreover have "ilog2 x + 1 = int (floorlog 2 n)" using True k1 by (simp add: ilog2_def n_def)
  ultimately show ?thesis by simp
next
  case False
  define c where "c = \<lceil>1 / \<bar>x\<bar>\<rceil>"
  define m where "m = nat (c - 1)"
  define k where "k = floorlog 2 m"
  have xp: "0 < \<bar>x\<bar>" using assms by simp
  have x1: "1 < 1 / \<bar>x\<bar>" using False assms by simp
  then have "1 < c" unfolding c_def by (simp add: less_ceiling_iff)
  then have m1: "0 < m" by (simp add: m_def)
  have k1: "0 < k" using m1 by (simp add: k_def floorlog_def)
  have "(2::nat) ^ (k - 1) \<le> m" using floorlog_bounds[of m 2] m1 by (simp add: k_def)
  then have "(of_nat ((2::nat) ^ (k - 1)) :: real) \<le> of_nat m"
    using of_nat_le_iff by blast
  then have a: "(2::real) ^ (k - 1) \<le> of_nat m" by simp
  have "(of_int (c - 1) :: real) < 1 / \<bar>x\<bar>" unfolding c_def by linarith
  moreover have "int m = c - 1" using \<open>1 < c\<close> by (simp add: m_def)
  ultimately have b: "(of_nat m :: real) < 1 / \<bar>x\<bar>" by (metis of_int_of_nat_eq)
  have "(2::real) ^ (k - 1) < 1 / \<bar>x\<bar>" using a b by (rule order.strict_trans1)
  then have "2 ^ (k - 1) * \<bar>x\<bar> < 1" using xp by (simp add: pos_less_divide_eq)
  then have "\<bar>x\<bar> < 1 / 2 ^ (k - 1)" by (simp add: pos_less_divide_eq mult.commute)
  moreover have "ilog2 x + 1 = - int (k - 1)" using False k1 by (simp add: ilog2_def k_def m_def c_def)
  ultimately show ?thesis by (simp add: power_int_minus_divide)
qed

lemma ilog2_unique:
  assumes "2 powi e \<le> \<bar>x\<bar>" "\<bar>x\<bar> < 2 powi (e + 1)"
  shows "ilog2 x = e"
proof -
  have "(0::real) < 2 powi e" by (simp add: zero_less_power_int)
  have x0: "x \<noteq> 0"
  proof
    assume "x = 0"
    with assms(1) have "(2::real) powi e \<le> 0" by simp
    with \<open>(0::real) < 2 powi e\<close> show False by linarith
  qed
  have "(2::real) powi (ilog2 x) < 2 powi (e + 1)" using ilog2_lower[OF x0] assms(2) by simp
  then have a: "ilog2 x < e + 1" by (rule pow2_less_imp)
  have "(2::real) powi e < 2 powi (ilog2 x + 1)" using ilog2_upper[OF x0] assms(1) by simp
  then have b: "e < ilog2 x + 1" by (rule pow2_less_imp)
  show ?thesis using a b by simp
qed

lemma round_half_even_of_int: "round_half_even (of_int n) = n"
  by (simp add: round_half_even_def)

lemma fl64_exact:
  assumes "\<bar>m\<bar> < 2 ^ 53"
  shows "fl64 (of_int m * 2 powi k) = of_int m * 2 powi k"
proof (cases "m = 0")
  case True
  then show ?thesis by (simp add: fl64_def)
next
  case False
  define x :: real where "x = of_int m * 2 powi k"
  have x0: "x \<noteq> 0" using False by (simp add: x_def)
  have "\<bar>x\<bar> = of_int \<bar>m\<bar> * 2 powi k" by (simp add: x_def abs_mult power_int_abs)
  also have "\<dots> < of_int (2 ^ 53) * 2 powi k"
    using assms by (intro mult_strict_right_mono) (simp_all add: zero_less_power_int)
  also have "\<dots> = 2 powi (53 + k)" by (simp add: power_int_add)
  finally have "(2::real) powi ilog2 x < 2 powi (53 + k)" using ilog2_lower[OF x0] by simp
  then have "ilog2 x < 53 + k" by (rule pow2_less_imp)
  define e where "e = ilog2 x - 52"
  define d where "d = nat (k - e)"
  have ek: "k = e + int d" using \<open>ilog2 x < 53 + k\<close> by (simp add: e_def d_def)
  have "x / 2 powi e = of_int m * 2 ^ d" by (simp add: x_def ek power_int_add)
  also have "\<dots> = of_int (m * 2 ^ d)" by simp
  finally have "round_half_even (x / 2 powi e) = m * 2 ^ d" by (simp only: round_half_even_of_int)
  then have "fl64 x = of_int (m * 2 ^ d) * 2 powi e" using x0 by (simp add: fl64_def e_def Let_def)
  also have "\<dots> = x" by (simp add: x_def ek power_int_add)
  finally show ?thesis by (simp add: x_def)
qed

lemma fl64_int: "\<bar>m\<bar> < 2 ^ 53 \<Longrightarrow> fl64 (of_int m) = of_int m"
  using fl64_exact[of m 0] by simp

lemma fl64_half: "\<bar>m\<bar> < 2 ^ 53 \<Longrightarrow> fl64 (of_int m / 2) = of_int m / 2"
  using fl64_exact[of m "-1"] by (simp add: power_int_minus_divide)


subsection \<open>The Cantor pairing in float64\<close>

lemma cantor_reference_prod_encode:
  "cantor_reference (int m) (int n) = int (prod_encode (n, m))"
  by (simp add: cantor_reference_def prod_encode_def triangle_def zdiv_int algebra_simps)

lemma cantor_reference_inj:
  assumes "0 \<le> a" "0 \<le> b" "0 \<le> a'" "0 \<le> b'"
    and "cantor_reference a b = cantor_reference a' b'"
  shows "a = a' \<and> b = b'"
proof -
  have "cantor_reference (int (nat a)) (int (nat b)) = cantor_reference (int (nat a')) (int (nat b'))"
    using assms by simp
  then have "prod_encode (nat b, nat a) = prod_encode (nat b', nat a')"
    by (simp only: cantor_reference_prod_encode of_nat_eq_iff)
  then have "nat b = nat b' \<and> nat a = nat a'" by (simp only: prod_encode_eq prod.inject)
  then show ?thesis using assms(1-4) by (simp add: eq_nat_nat_iff)
qed

lemma even_tri: "even (s * (s + 1) :: int)"
  by simp

lemma cantor_pairing_exact:
  assumes a: "0 \<le> a" and b: "0 \<le> b" and c: "cantor_reference a b < 2 ^ 53"
  shows "cantor_pairing a b = of_int (cantor_reference a b)"
proof -
  define s where "s = a + b"
  define T where "T = s * (s + 1) div 2"
  have s0: "0 \<le> s" using a b by (simp add: s_def)
  have tw: "s * (s + 1) = 2 * T" unfolding T_def using even_tri[of s] by simp
  have cT: "cantor_reference a b = T + b" by (simp add: cantor_reference_def T_def s_def)
  have T53: "T < 2 ^ 53" using c b cT by simp
  have T0: "0 \<le> T" using s0 by (simp add: T_def pos_imp_zdiv_nonneg_iff)
  have "s * 1 \<le> s * (s + 1)" using s0 by (intro mult_left_mono) simp_all
  then have sT2: "s \<le> 2 * T" using tw by simp
  have s1: "s + 1 < 2 ^ 53"
  proof (cases "s \<le> 1")
    case True then show ?thesis by simp
  next
    case False
    then have "2 * (s + 1) \<le> s * (s + 1)" by (intro mult_right_mono) simp_all
    then show ?thesis using tw T53 by simp
  qed
  have e1: "i2f s = of_int s" unfolding i2f_def using s1 s0 by (intro fl64_int) simp
  have e2: "fmul (1 / 2) (of_int s) = of_int s / 2"
    unfolding fmul_def using fl64_half[of s] s1 s0 by simp
  have e3: "i2f (s + 1) = of_int (s + 1)" unfolding i2f_def using s1 s0 by (intro fl64_int) simp
  have "(of_int s / 2) * of_int (s + 1) = (of_int (s * (s + 1)) :: real) / 2" by simp
  also have "\<dots> = of_int T" unfolding tw by simp
  finally have p: "(of_int s / 2) * of_int (s + 1) = (of_int T :: real)" .
  have e4: "fmul (of_int s / 2) (of_int (s + 1)) = of_int T"
    unfolding fmul_def p using T53 T0 by (intro fl64_int) simp
  have e5: "i2f b = of_int b" unfolding i2f_def using b c cT T0 by (intro fl64_int) simp
  have "fadd (of_int T) (of_int b) = fl64 (of_int (T + b))" by (simp add: fadd_def)
  also have "\<dots> = of_int (T + b)" using T0 b c cT by (intro fl64_int) simp
  finally have e6: "fadd (of_int T) (of_int b) = of_int (T + b)" .
  show ?thesis
    unfolding cantor_pairing_def s_def[symmetric] e1 e2 e3 e4 e5 e6 cT ..
qed

lemma cantor_pairing_3_5: "cantor_pairing 3 5 = 41"
  using cantor_pairing_exact[of 3 5] by (simp add: cantor_reference_def)

lemma fl64_2_53_odd: "fl64 9007199456067585 = 9007199456067584"
proof -
  have "ilog2 9007199456067585 = 53" by (rule ilog2_unique) simp_all
  then show ?thesis by (simp add: fl64_def round_half_even_def Let_def)
qed

lemma cantor_pairing_rounds: "cantor_pairing 134217729 0 = 9007199456067584"
proof -
  have 1: "i2f 134217729 = 134217729" unfolding i2f_def using fl64_int[of 134217729] by simp
  have 2: "i2f 134217730 = 134217730" unfolding i2f_def using fl64_int[of 134217730] by simp
  have 3: "fmul (1/2) 134217729 = 134217729 / 2" unfolding fmul_def using fl64_half[of 134217729] by simp
  have 4: "fmul (134217729 / 2) 134217730 = 9007199456067584"
    unfolding fmul_def using fl64_2_53_odd by simp
  have 5: "i2f 0 = 0" by (simp add: i2f_def fl64_def)
  have 6: "fadd 9007199456067584 0 = 9007199456067584"
    unfolding fadd_def using fl64_exact[of 4503599728033792 1] by simp
  show ?thesis unfolding cantor_pairing_def by (simp add: 1 2 3 4 5 6)
qed

lemma cantor_pairing_0_2_27: "cantor_pairing 0 134217728 = 9007199456067584"
proof -
  have 1: "i2f 134217728 = 134217728" unfolding i2f_def using fl64_int[of 134217728] by simp
  have 2: "i2f 134217729 = 134217729" unfolding i2f_def using fl64_int[of 134217729] by simp
  have 3: "fmul (1/2) 134217728 = 67108864" unfolding fmul_def using fl64_int[of 67108864] by simp
  have 4: "fmul 67108864 134217729 = 9007199321849856"
    unfolding fmul_def using fl64_exact[of 4503599660924928 1] by simp
  have 6: "fadd 9007199321849856 134217728 = 9007199456067584"
    unfolding fadd_def using fl64_exact[of 4503599728033792 1] by simp
  show ?thesis unfolding cantor_pairing_def by (simp add: 1 2 3 4 6)
qed


subsection \<open>Frame lemmas\<close>

lemma kept_refl: "kept s s"
  by (simp add: kept_def)

lemma kept_trans: "kept s s' \<Longrightarrow> kept s' s'' \<Longrightarrow> kept s s''"
  by (simp add: kept_def)

lemma kept_log:
  "\<not> is_extraction ev \<Longrightarrow> ev \<noteq> CallReadUnits \<Longrightarrow> kept s (log_event ev s)"
  by (simp add: kept_def log_event_def extractions_def resolutions_def)

lemma kept_H5File: "H5File E p s = (r, s') \<Longrightarrow> kept s s'"
  by (auto simp: H5File_def kept_log kept_refl split: option.splits)

lemma kept_close: "kept s (h5_close p s)"
  by (simp add: h5_close_def kept_log)

lemma kept_Osiris_OpenFile: "Osiris_OpenFile E t s = (r, s') \<Longrightarrow> kept s s'"
  by (auto simp: Osiris_OpenFile_def Let_def dest: kept_H5File)

lemma kept_HiPACE_OpenFile: "HiPACE_OpenFile E t s = (r, s') \<Longrightarrow> kept s s'"
  by (auto simp: HiPACE_OpenFile_def Let_def dest: kept_H5File)

lemma kept_currentTime: "kept s s' \<Longrightarrow> kept s (s'\<lparr>currentTime := c\<rparr>)"
  by (simp add: kept_def)

lemma kept_Osiris_ReadTime: "Osiris_ReadTime E t s = (r, s') \<Longrightarrow> kept s s'"
  unfolding Osiris_ReadTime_def
  by (auto simp: kept_def h5_close_def log_event_def extractions_def resolutions_def
      split: prod.splits sum.splits dest!: kept_Osiris_OpenFile)

lemma kept_Osiris_ReadData: "Osiris_ReadData E t s = (r, s') \<Longrightarrow> kept s s'"
  unfolding Osiris_ReadData_def
  by (auto simp: kept_def Let_def h5_close_def log_event_def extractions_def resolutions_def
      split: prod.splits sum.splits if_splits dest!: kept_Osiris_OpenFile)

lemma kept_HiPACE_ReadTime: "HiPACE_ReadTime E t s = (r, s') \<Longrightarrow> kept s s'"
  unfolding HiPACE_ReadTime_def
  by (auto simp: kept_def h5_close_def log_event_def extractions_def resolutions_def
      split: prod.splits sum.splits dest!: kept_HiPACE_OpenFile)

lemma kept_HiPACE_ReadData: "HiPACE_ReadData E t s = (r, s') \<Longrightarrow> kept s s'"
  unfolding HiPACE_ReadData_def
  by (auto simp: kept_def Let_def h5_close_def log_event_def extractions_def resolutions_def
      split: prod.splits sum.splits if_splits dest!: kept_HiPACE_OpenFile)

lemma kept_OpenPMD_find_output: "OpenPMD_find_output t s = (r, s') \<Longrightarrow> kept s s'"
  unfolding OpenPMD_find_output_def
  by (auto simp: kept_def Let_def log_event_def extractions_def resolutions_def
      split: option.splits sum.splits)

lemma kept_OpenPMD_ReadTime: "OpenPMD_ReadTime t s = (r, s') \<Longrightarrow> kept s s'"
  unfolding OpenPMD_ReadTime_def
  by (auto simp: kept_def split: prod.splits sum.splits if_splits dest!: kept_OpenPMD_find_output)

lemma kept_ReadTime: "ReadTime E t s = (r, s') \<Longrightarrow> kept s s'"
  unfolding ReadTime_def Let_def
  by (auto split: backend.splits
      dest!: kept_Osiris_ReadTime kept_HiPACE_ReadTime kept_OpenPMD_ReadTime
      simp: kept_def log_event_def extractions_def resolutions_def)

lemma kept_OpenPMD_ReadData: "OpenPMD_ReadData E t s = (r, s') \<Longrightarrow> kept s s'"
  unfolding OpenPMD_ReadData_def
  by (auto simp: kept_def Let_def log_event_def extractions_def resolutions_def
      split: option.splits prod.splits sum.splits dest!: kept_ReadTime)


subsection \<open>The concrete run\<close>

lemma replicate_numeral: "replicate (numeral k) x = x # replicate (pred_numeral k) x"
  by (simp add: numeral_eq_Suc)

lemma zfill_1: "zfill 6 (str_int 1) = ''000001''"
  by (simp add: zfill_def str_int_def nat_digits.simps digit_char_def replicate_numeral)

lemma zfill_2: "zfill 6 (str_int 2) = ''000002''"
  by (simp add: zfill_def str_int_def nat_digits.simps digit_char_def replicate_numeral)

lemma zfill_3: "zfill 6 (str_int 3) = ''000003''"
  by (simp add: zfill_def str_int_def nat_digits.simps digit_char_def replicate_numeral)

lemma zfill_4: "zfill 6 (str_int 4) = ''000004''"
  by (simp add: zfill_def str_int_def nat_digits.simps digit_char_def replicate_numeral)

lemma fsub_10_0: "fsub 10 0 = 10"
  unfolding fsub_def using fl64_int[of 10] by simp

lemma ex_osiris_eq:
  "ex_osiris name =
     \<lparr>backend = Osiris, location = ''sim'', speciesName = ''electrons'', dataName = name,
      internalName = name, firstTimeStep = 1, dataUnits = [], timeUnits = [],
      currentTimeStep = - 1, currentTime = None, data = NoneArray,
      grid_resolution = Some [64], grid_size = Some [10], grid_units = c_over_omega_p,
      openpmd_ts = None,
      trace = [FileOpen ''sim/RAW-electrons-000001.h5'', FileClose ''sim/RAW-electrons-000001.h5'']\<rparr>"
  by (simp add: ex_osiris_def OsirisRawDataReader_init_def RawDataReaderBase_init_def
      DataReader_init_def ReadBasicData_def Osiris_ReadBasicData_def Osiris_OpenFile_def
      H5File_def ex_env_def ex_object_def zfill_1 Let_def log_event_def
      Osiris_ReadSimulationProperties_def ex_file_def attr_get_def np_sub_def h5_close_def
      fsub_10_0)

lemma ex_hipace_eq:
  "ex_hipace name =
     \<lparr>backend = HiPACE, location = ''sim'', speciesName = ''electrons'', dataName = name,
      internalName = name, firstTimeStep = 1, dataUnits = [], timeUnits = [],
      currentTimeStep = - 1, currentTime = None, data = NoneArray,
      grid_resolution = Some [64], grid_size = Some [10], grid_units = c_over_omega_p,
      openpmd_ts = None,
      trace = [FileOpen ''sim/raw_electrons_000001.h5'', FileClose ''sim/raw_electrons_000001.h5'']\<rparr>"
  by (simp add: ex_hipace_def HiPACERawDataReader_init_def RawDataReaderBase_init_def
      DataReader_init_def ReadBasicData_def HiPACE_ReadBasicData_def HiPACE_OpenFile_def
      H5File_def ex_env_def ex_object_def zfill_1 Let_def log_event_def
      HiPACE_ReadSimulationProperties_def ex_file_def attr_get_def np_sub_def h5_close_def
      fsub_10_0)

lemma Osiris_OpenFile_ex_1:
  "location s = ''sim'' \<Longrightarrow> speciesName s = ''electrons'' \<Longrightarrow>
   Osiris_OpenFile ex_env 1 s =
     (Inr (''sim/RAW-electrons-000001.h5'', ex_file [1, - 1 / 2] (5 / 2)),
      log_event (FileOpen ''sim/RAW-electrons-000001.h5'') s)"
  by (simp add: Osiris_OpenFile_def H5File_def ex_env_def zfill_1 Let_def)

lemma Osiris_OpenFile_ex_2:
  "location s = ''sim'' \<Longrightarrow> speciesName s = ''electrons'' \<Longrightarrow>
   Osiris_OpenFile ex_env 2 s =
     (Inr (''sim/RAW-electrons-000002.h5'', ex_file [2, 3] 5),
      log_event (FileOpen ''sim/RAW-electrons-000002.h5'') s)"
  by (simp add: Osiris_OpenFile_def H5File_def ex_env_def zfill_2 Let_def)

lemma Osiris_OpenFile_ex_3:
  "location s = ''sim'' \<Longrightarrow> speciesName s = ''electrons'' \<Longrightarrow>
   Osiris_OpenFile ex_env 3 s =
     (Inr (''sim/RAW-electrons-000003.h5'', (ex_file [4] 0)\<lparr>attr_TIME := None\<rparr>),
      log_event (FileOpen ''sim/RAW-electrons-000003.h5'') s)"
  by (simp add: Osiris_OpenFile_def H5File_def ex_env_def zfill_3 Let_def)

lemma Osiris_OpenFile_ex_4:
  "location s = ''sim'' \<Longrightarrow> speciesName s = ''electrons'' \<Longrightarrow>
   Osiris_OpenFile ex_env 4 s = (Inl (OSError ''sim/RAW-electrons-000004.h5''), s)"
  by (simp add: Osiris_OpenFile_def H5File_def ex_env_def zfill_4 Let_def)

lemma HiPACE_OpenFile_ex_1:
  "location s = ''sim'' \<Longrightarrow> speciesName s = ''electrons'' \<Longrightarrow>
   HiPACE_OpenFile ex_env 1 s =
     (Inr (''sim/raw_electrons_000001.h5'', ex_file [1, - 1 / 2] (5 / 2)),
      log_event (FileOpen ''sim/raw_electrons_000001.h5'') s)"
  by (simp add: HiPACE_OpenFile_def H5File_def ex_env_def zfill_1 Let_def)

subsection \<open>Tag reads\<close>

lemma cantor_pairing_0_0: "cantor_pairing 0 0 = 0"
  by (simp add: cantor_pairing_def i2f_def fmul_def fadd_def fl64_def)

lemma tag_ids_exact:
  assumes "\<forall>(a, b) \<in> set ps. 0 \<le> a \<and> 0 \<le> b \<and> cantor_reference a b < 2 ^ 53"
  shows "tag_ids (IntPairArray ps) =
           Inr (FloatArray (map (\<lambda>(a, b). of_int (cantor_reference a b)) ps))"
  using assms by (auto simp: tag_ids_def cantor_pairing_exact)

lemma cantor_pairing_inj_on:
  "inj_on (\<lambda>(a, b). cantor_pairing a b)
     {(a, b). 0 \<le> a \<and> 0 \<le> b \<and> cantor_reference a b < 2 ^ 53}"
proof (rule inj_onI, clarify)
  fix a b a' b' :: int
  assume h: "0 \<le> a" "0 \<le> b" "cantor_reference a b < 2 ^ 53"
    "0 \<le> a'" "0 \<le> b'" "cantor_reference a' b' < 2 ^ 53"
    "cantor_pairing a b = cantor_pairing a' b'"
  then have "(of_int (cantor_reference a b) :: real) = of_int (cantor_reference a' b')"
    by (simp add: cantor_pairing_exact)
  then have "cantor_reference a b = cantor_reference a' b'" by simp
  with h show "a = a' \<and> b = b'" using cantor_reference_inj by blast
qed

lemma Osiris_ReadData_tag:
  assumes "internalName self = ''tag''"
    and "Osiris_OpenFile E timeStep self = (Inr (file_path, file_content), s1)"
    and "attr_TIME file_content = Some (tm # tms)"
  shows "fst (Osiris_ReadData E timeStep self) = tag_ids (np_array_get file_content ''tag'')"
proof -
  have "internalName s1 = ''tag''" using kept_Osiris_OpenFile[OF assms(2)] assms(1) by (simp add: kept_def)
  then show ?thesis using assms(2,3)
    by (simp add: Osiris_ReadData_def Let_def log_event_def attr_first_def split: sum.splits)
qed

lemma HiPACE_ReadData_tag:
  assumes "internalName self = ''tag''"
    and "HiPACE_OpenFile E timeStep self = (Inr (file_path, file_content), s1)"
    and "attr_TIME file_content = Some (tm # tms)"
  shows "fst (HiPACE_ReadData E timeStep self) = tag_ids (np_array_get file_content ''tag'')"
proof -
  have "internalName s1 = ''tag''" using kept_HiPACE_OpenFile[OF assms(2)] assms(1) by (simp add: kept_def)
  then show ?thesis using assms(2,3)
    by (simp add: HiPACE_ReadData_def Let_def log_event_def attr_first_def split: sum.splits)
qed

text \<open>
  Claim C3, as amended. A tag read of the OSIRIS or of the HiPACE reader returns, for a
  tag dataset whose pairs \<open>(a, b)\<close> are non-negative with
  \<open>(a+b)*(a+b+1)/2 + b < 2^53\<close>, the float64 array of exactly these values; \<open>(3, 5)\<close>
  maps to 41 and \<open>(0, 0)\<close> to 0; and on such pairs the mapping is injective.
\<close>

theorem tag_read_synthesizes_cantor_ids:
  assumes "\<forall>(a, b) \<in> set ps. 0 \<le> a \<and> 0 \<le> b \<and> cantor_reference a b < 2 ^ 53"
    and "internalName self = ''tag''"
    and "attr_TIME file_content = Some (tm # tms)"
    and "np_array_get file_content ''tag'' = IntPairArray ps"
  shows "(Osiris_OpenFile E timeStep self = (Inr (file_path, file_content), s1) \<longrightarrow>
            fst (Osiris_ReadData E timeStep self) =
              Inr (FloatArray (map (\<lambda>(a, b). of_int (cantor_reference a b)) ps)))
       \<and> (HiPACE_OpenFile E timeStep self = (Inr (file_path, file_content), s1) \<longrightarrow>
            fst (HiPACE_ReadData E timeStep self) =
              Inr (FloatArray (map (\<lambda>(a, b). of_int (cantor_reference a b)) ps)))
       \<and> cantor_pairing 3 5 = 41 \<and> cantor_pairing 0 0 = 0
       \<and> inj_on (\<lambda>(a, b). cantor_pairing a b)
            {(a, b). 0 \<le> a \<and> 0 \<le> b \<and> cantor_reference a b < 2 ^ 53}"
  using assms Osiris_ReadData_tag[of self E timeStep file_path file_content s1 tm tms]
    HiPACE_ReadData_tag[of self E timeStep file_path file_content s1 tm tms]
    tag_ids_exact[of ps] cantor_pairing_3_5 cantor_pairing_0_0 cantor_pairing_inj_on
  by simp

lemma ex_file_tag: "np_array_get (ex_file xs tm) ''tag'' = IntPairArray [(3, 5), (0, 0)]"
  by (simp add: np_array_get_def ex_file_def)

text \<open>
  The theorem at the tag reads of timestep 1 of the concrete run, whose pairs are
  \<open>(3, 5)\<close> and \<open>(0, 0)\<close>.
\<close>

theorem tag_read_synthesizes_cantor_ids_witness:
  "fst (Osiris_ReadData ex_env 1 (ex_osiris ''tag'')) = Inr (FloatArray [41, 0])
   \<and> fst (HiPACE_ReadData ex_env 1 (ex_hipace ''tag'')) = Inr (FloatArray [41, 0])"
proof -
  have b: "\<forall>(a, b) \<in> set [(3, 5), (0, 0 :: int)]. 0 \<le> a \<and> 0 \<le> b \<and> cantor_reference a b < 2 ^ 53"
    by (simp add: cantor_reference_def)
  have t: "attr_TIME (ex_file [1, - 1 / 2] (5 / 2)) = Some (5 / 2 # [])" by (simp add: ex_file_def)
  have o: "Osiris_OpenFile ex_env 1 (ex_osiris ''tag'') =
      (Inr (''sim/RAW-electrons-000001.h5'', ex_file [1, - 1 / 2] (5 / 2)),
       log_event (FileOpen ''sim/RAW-electrons-000001.h5'') (ex_osiris ''tag''))"
    by (rule Osiris_OpenFile_ex_1) (simp_all add: ex_osiris_eq)
  have h: "HiPACE_OpenFile ex_env 1 (ex_hipace ''tag'') =
      (Inr (''sim/raw_electrons_000001.h5'', ex_file [1, - 1 / 2] (5 / 2)),
       log_event (FileOpen ''sim/raw_electrons_000001.h5'') (ex_hipace ''tag''))"
    by (rule HiPACE_OpenFile_ex_1) (simp_all add: ex_hipace_eq)
  have io: "internalName (ex_osiris ''tag'') = ''tag''" by (simp add: ex_osiris_eq)
  have ih: "internalName (ex_hipace ''tag'') = ''tag''" by (simp add: ex_hipace_eq)
  have c: "cantor_reference 3 5 = 41" "cantor_reference 0 0 = 0" by (simp_all add: cantor_reference_def)
  from tag_read_synthesizes_cantor_ids[OF b io t ex_file_tag, of ex_env 1
      "''sim/RAW-electrons-000001.h5''" "log_event (FileOpen ''sim/RAW-electrons-000001.h5'') (ex_osiris ''tag'')"]
    tag_read_synthesizes_cantor_ids[OF b ih t ex_file_tag, of ex_env 1
      "''sim/raw_electrons_000001.h5''" "log_event (FileOpen ''sim/raw_electrons_000001.h5'') (ex_hipace ''tag'')"]
    o h c
  show ?thesis by simp
qed

text \<open>
  Claim C3 as stated fails: the source computes in float64, where the product for the pair
  \<open>(134217729, 0)\<close> is a tie between two floats and rounds to the even one, one less
  than the reference value, which is the id of the pair \<open>(0, 134217728)\<close>.
\<close>

theorem tag_ids_deviate_and_collide:
  "tag_ids (IntPairArray [(134217729, 0), (0, 134217728)]) =
     Inr (FloatArray [9007199456067584, 9007199456067584])
   \<and> cantor_reference 134217729 0 = 9007199456067585
   \<and> cantor_reference 0 134217728 = 9007199456067584"
  by (simp add: tag_ids_def cantor_pairing_rounds cantor_pairing_0_2_27 cantor_reference_def)


subsection \<open>The cache of the base class\<close>

lemma extractions_log: "extractions (trace (log_event ev s)) = extractions (trace s) + (if is_extraction ev then 1 else 0)"
  by (simp add: extractions_def log_event_def)

lemma resolutions_log: "resolutions (trace (log_event ev s)) = resolutions (trace s) + (if ev = CallReadUnits then 1 else 0)"
  by (simp add: resolutions_def log_event_def)

lemma log_event_fields [simp]:
  "backend (log_event ev s) = backend s"
  "location (log_event ev s) = location s"
  "speciesName (log_event ev s) = speciesName s"
  "dataName (log_event ev s) = dataName s"
  "internalName (log_event ev s) = internalName s"
  "firstTimeStep (log_event ev s) = firstTimeStep s"
  "currentTimeStep (log_event ev s) = currentTimeStep s"
  "currentTime (log_event ev s) = currentTime s"
  "data (log_event ev s) = data s"
  "dataUnits (log_event ev s) = dataUnits s"
  "timeUnits (log_event ev s) = timeUnits s"
  "openpmd_ts (log_event ev s) = openpmd_ts s"
  by (simp_all add: log_event_def)

lemma ReadData_frame:
  assumes "ReadData E t s = (r, s')"
  shows "backend s' = backend s \<and> location s' = location s \<and> speciesName s' = speciesName s \<and>
         dataName s' = dataName s \<and> internalName s' = internalName s \<and>
         firstTimeStep s' = firstTimeStep s \<and> currentTimeStep s' = currentTimeStep s \<and>
         data s' = data s \<and> extractions (trace s') = Suc (extractions (trace s)) \<and>
         resolutions (trace s') = resolutions (trace s)"
proof -
  define s0 where "s0 = log_event (CallReadData t) s"
  have k: "kept s0 s'"
    using assms kept_Osiris_ReadData[of E t s0 r s'] kept_HiPACE_ReadData[of E t s0 r s']
      kept_OpenPMD_ReadData[of E t s0 r s']
    by (simp add: ReadData_def Let_def s0_def split: backend.splits)
  show ?thesis using k by (simp add: kept_def s0_def extractions_log resolutions_log)
qed

lemma ReadTime_frame:
  assumes "ReadTime E t s = (r, s')"
  shows "kept s s'"
  using assms by (rule kept_ReadTime)

lemma GetData_hit: "currentTimeStep s = t \<Longrightarrow> GetData E t s = (Inr (data s), s)"
  by (simp add: GetData_def)

lemma GetData_miss:
  "t \<noteq> currentTimeStep s \<Longrightarrow>
   fst (GetData E t s) = fst (ReadData E t (s\<lparr>currentTimeStep := t\<rparr>))"
  by (simp add: GetData_def split: prod.splits sum.splits)

lemma GetData_currentTimeStep: "currentTimeStep (snd (GetData E t s)) = t"
proof (cases "t = currentTimeStep s")
  case True
  then show ?thesis by (simp add: GetData_def)
next
  case False
  obtain r s' where rd: "ReadData E t (s\<lparr>currentTimeStep := t\<rparr>) = (r, s')" by (cases "ReadData E t (s\<lparr>currentTimeStep := t\<rparr>)")
  from ReadData_frame[OF rd] have "currentTimeStep s' = t" by simp
  then show ?thesis using False rd by (simp add: GetData_def split: sum.splits)
qed

lemma GetData_extractions:
  "extractions (trace (snd (GetData E t s))) =
     extractions (trace s) + (if t \<noteq> currentTimeStep s then 1 else 0)"
proof (cases "t = currentTimeStep s")
  case True
  then show ?thesis by (simp add: GetData_def)
next
  case False
  obtain r s' where rd: "ReadData E t (s\<lparr>currentTimeStep := t\<rparr>) = (r, s')" by (cases "ReadData E t (s\<lparr>currentTimeStep := t\<rparr>)")
  from ReadData_frame[OF rd] have "extractions (trace s') = Suc (extractions (trace s))" by simp
  then show ?thesis using False rd by (simp add: GetData_def split: sum.splits)
qed

lemma GetData_Inr:
  assumes "GetData E t s = (Inr d, s1)"
  shows "currentTimeStep s1 = t \<and> data s1 = d"
proof (cases "t = currentTimeStep s")
  case True
  then show ?thesis using assms by (auto simp: GetData_def)
next
  case False
  obtain r s' where rd: "ReadData E t (s\<lparr>currentTimeStep := t\<rparr>) = (r, s')" by (cases "ReadData E t (s\<lparr>currentTimeStep := t\<rparr>)")
  from ReadData_frame[OF rd] have "currentTimeStep s' = t" by simp
  then show ?thesis using False rd assms by (auto simp: GetData_def split: sum.splits)
qed

text \<open>
  Claim C7. When \<^verbatim>\<open>GetData(t)\<close> returns an array, a second \<^verbatim>\<open>GetData(t)\<close> returns
  the same array and leaves the reader as it is, its trace included: it makes no call and
  opens no file. The first call makes exactly one \<^verbatim>\<open>_ReadData\<close> call when \<open>t\<close> is
  not the timestep the reader holds, and the second call never makes one.
\<close>

theorem GetData_twice:
  "(GetData E t self = (Inr d, s1) \<longrightarrow> GetData E t s1 = (Inr d, s1))
   \<and> (t \<noteq> currentTimeStep self \<longrightarrow>
        extractions (trace (snd (GetData E t self))) = extractions (trace self) + 1)
   \<and> extractions (trace (snd (GetData E t (snd (GetData E t self))))) =
        extractions (trace (snd (GetData E t self)))"
proof (intro conjI impI)
  assume a: "GetData E t self = (Inr d, s1)"
  from GetData_Inr[OF a] show "GetData E t s1 = (Inr d, s1)" by (simp add: GetData_def)
next
  assume "t \<noteq> currentTimeStep self"
  then show "extractions (trace (snd (GetData E t self))) = extractions (trace self) + 1"
    by (simp add: GetData_extractions)
next
  show "extractions (trace (snd (GetData E t (snd (GetData E t self))))) =
        extractions (trace (snd (GetData E t self)))"
    by (simp add: GetData_extractions GetData_currentTimeStep)
qed

text \<open>
  Claim C8, as amended. For \<open>t1 \<noteq> t2\<close> and every reader, in the sequence
  \<^verbatim>\<open>GetData(t1)\<close>, \<^verbatim>\<open>GetData(t2)\<close>, \<^verbatim>\<open>GetData(t1)\<close> the second and the third call
  each make one \<^verbatim>\<open>_ReadData\<close> call, whether they return or raise, and the third call
  returns what its own \<^verbatim>\<open>_ReadData(t1)\<close> returns, not what the first call cached. The
  first call makes one \<^verbatim>\<open>_ReadData\<close> call when the reader does not hold \<open>t1\<close>, and
  none when it does.
\<close>

theorem GetData_reextracts_after_other_timestep:
  assumes "t1 \<noteq> t2"
  shows "extractions (trace (snd (GetData E t1 self))) =
           extractions (trace self) + (if currentTimeStep self = t1 then 0 else 1)
       \<and> extractions (trace (snd (GetData E t2 (snd (GetData E t1 self))))) =
           extractions (trace (snd (GetData E t1 self))) + 1
       \<and> extractions (trace (snd (GetData E t1 (snd (GetData E t2 (snd (GetData E t1 self))))))) =
           extractions (trace (snd (GetData E t2 (snd (GetData E t1 self))))) + 1
       \<and> fst (GetData E t1 (snd (GetData E t2 (snd (GetData E t1 self))))) =
           fst (ReadData E t1 ((snd (GetData E t2 (snd (GetData E t1 self))))\<lparr>currentTimeStep := t1\<rparr>))"
  using assms by (simp add: GetData_extractions GetData_currentTimeStep GetData_miss)

lemmas run_defs = GetData_def GetTime_def GetDataUnits_def GetTimeUnits_def
  ReadData_def ReadTime_def ReadUnits_def
  Osiris_ReadData_def Osiris_ReadTime_def Osiris_ReadUnits_def Osiris_OpenFile_def
  HiPACE_ReadData_def HiPACE_ReadTime_def HiPACE_ReadUnits_def HiPACE_OpenFile_def
  H5File_def ex_env_def Let_def log_event_def h5_close_def np_array_get_def
  attr_first_def dataset_units_def ex_file_def zfill_1 zfill_2 zfill_3 zfill_4

text \<open>
  The theorem on the concrete run: two reads of timestep 1 by a new reader.
\<close>

theorem GetData_twice_witness:
  "GetData ex_env 1 (snd (GetData ex_env 1 (ex_osiris ''x1''))) =
     (Inr (FloatArray [1, - 1 / 2]), snd (GetData ex_env 1 (ex_osiris ''x1'')))
   \<and> extractions (trace (snd (GetData ex_env 1 (ex_osiris ''x1'')))) = 1
   \<and> extractions (trace (snd (GetData ex_env 1 (snd (GetData ex_env 1 (ex_osiris ''x1'')))))) = 1"
proof -
  have a: "GetData ex_env 1 (ex_osiris ''x1'') =
      (Inr (FloatArray [1, - 1 / 2]), snd (GetData ex_env 1 (ex_osiris ''x1'')))"
    by (simp add: ex_osiris_eq run_defs)
  have b: "(1::int) \<noteq> currentTimeStep (ex_osiris ''x1'')" by (simp add: ex_osiris_eq)
  have c: "extractions (trace (ex_osiris ''x1'')) = 0" by (simp add: ex_osiris_eq extractions_def)
  from GetData_twice[of ex_env 1 "ex_osiris ''x1''" "FloatArray [1, - 1 / 2]"
      "snd (GetData ex_env 1 (ex_osiris ''x1''))"] a b c
  show ?thesis by simp
qed

text \<open>
  The theorem on the concrete run, for the timesteps 1, 2, 1 and a new reader: one, two
  and three \<^verbatim>\<open>_ReadData\<close> calls after the first, second and third call.
\<close>

theorem GetData_reextracts_after_other_timestep_witness:
  "(1::int) \<noteq> 2
   \<and> extractions (trace (snd (GetData ex_env 1 (ex_osiris ''x1'')))) = 1
   \<and> extractions (trace (snd (GetData ex_env 2 (snd (GetData ex_env 1 (ex_osiris ''x1'')))))) = 2
   \<and> extractions (trace (snd (GetData ex_env 1 (snd (GetData ex_env 2
        (snd (GetData ex_env 1 (ex_osiris ''x1''))))))))
       = 3"
proof -
  have b: "currentTimeStep (ex_osiris ''x1'') \<noteq> 1" by (simp add: ex_osiris_eq)
  have c: "extractions (trace (ex_osiris ''x1'')) = 0" by (simp add: ex_osiris_eq extractions_def)
  have d: "(1::int) \<noteq> 2" by simp
  from GetData_reextracts_after_other_timestep[OF d, of ex_env "ex_osiris ''x1''"] b c
  show ?thesis by simp
qed

text \<open>
  Claim C8 as stated fails for a reader that already holds \<open>t1\<close>: after a
  \<^verbatim>\<open>GetData(1)\<close>, the first call of the sequence \<^verbatim>\<open>GetData(1)\<close>,
  \<^verbatim>\<open>GetData(2)\<close>, \<^verbatim>\<open>GetData(1)\<close> is served from the cache, and the three calls
  make two \<^verbatim>\<open>_ReadData\<close> calls, not three.
\<close>

theorem GetData_first_call_served_from_cache:
  "currentTimeStep (snd (GetData ex_env 1 (ex_osiris ''x1''))) = 1
   \<and> extractions (trace (snd (GetData ex_env 1 (ex_osiris ''x1'')))) = 1
   \<and> extractions (trace (snd (GetData ex_env 1 (snd (GetData ex_env 1 (ex_osiris ''x1'')))))) = 1
   \<and> extractions (trace (snd (GetData ex_env 1 (snd (GetData ex_env 2
        (snd (GetData ex_env 1 (snd (GetData ex_env 1 (ex_osiris ''x1''))))))))))
       = 3"
proof -
  have b: "currentTimeStep (ex_osiris ''x1'') \<noteq> 1" by (simp add: ex_osiris_eq)
  have c: "extractions (trace (ex_osiris ''x1'')) = 0" by (simp add: ex_osiris_eq extractions_def)
  show ?thesis using b c by (simp add: GetData_extractions GetData_currentTimeStep)
qed

subsection \<open>One cache key for time and data\<close>

lemma GetTime_frame:
  "currentTimeStep (snd (GetTime E t s)) = t \<and> data (snd (GetTime E t s)) = data s
   \<and> extractions (trace (snd (GetTime E t s))) = extractions (trace s)"
proof (cases "t = currentTimeStep s")
  case True
  then show ?thesis by (simp add: GetTime_def)
next
  case False
  obtain r s' where rd: "ReadTime E t (s\<lparr>currentTimeStep := t\<rparr>) = (r, s')"
    by (cases "ReadTime E t (s\<lparr>currentTimeStep := t\<rparr>)")
  from kept_ReadTime[OF rd] show ?thesis using False rd
    by (simp add: GetTime_def kept_def split: sum.splits)
qed

lemma GetData_after_GetTime:
  "GetData E t (snd (GetTime E t s)) = (Inr (data s), snd (GetTime E t s))"
  using GetTime_frame[of E t s] by (simp add: GetData_hit)

text \<open>
  Claim C1 at a failing input. \<^verbatim>\<open>GetTime\<close> and \<^verbatim>\<open>GetData\<close> share
  \<^verbatim>\<open>currentTimeStep\<close>: after \<^verbatim>\<open>GetData(1)\<close> and \<^verbatim>\<open>GetTime(2)\<close>, the call
  \<^verbatim>\<open>GetData(2)\<close> makes no extraction and returns the array of timestep 1,
  \<open>[1, -0.5]\<close>, where the file of timestep 2 holds \<open>[2, 3]\<close>.
\<close>

theorem GetData_after_GetTime_is_stale:
  "fst (GetData ex_env 1 (ex_osiris ''x1'')) = Inr (FloatArray [1, - 1 / 2])
   \<and> fst (GetTime ex_env 2 (snd (GetData ex_env 1 (ex_osiris ''x1'')))) = Inr (Some 5)
   \<and> GetData ex_env 2 (snd (GetTime ex_env 2 (snd (GetData ex_env 1 (ex_osiris ''x1''))))) =
       (Inr (FloatArray [1, - 1 / 2]),
        snd (GetTime ex_env 2 (snd (GetData ex_env 1 (ex_osiris ''x1'')))))
   \<and> fst (GetData ex_env 2 (ex_osiris ''x1'')) = Inr (FloatArray [2, 3])"
  by (simp add: ex_osiris_eq run_defs)

subsection \<open>A read that raises\<close>

text \<open>
  Claim C2 at a failing input. \<^verbatim>\<open>currentTimeStep\<close> is assigned before the extraction:
  after \<^verbatim>\<open>GetData(1)\<close>, a \<^verbatim>\<open>GetData(4)\<close> that raises (there is no file of timestep
  4) leaves \<^verbatim>\<open>currentTimeStep = 4\<close> with the data of timestep 1, and the next
  \<^verbatim>\<open>GetData(4)\<close> returns that data without an error. \<^verbatim>\<open>GetTime(4)\<close> likewise
  leaves \<^verbatim>\<open>currentTimeStep = 4\<close> with the time of timestep 1.
\<close>

theorem failed_GetData_keeps_new_timestep:
  "currentTimeStep (snd (GetData ex_env 1 (ex_osiris ''x1''))) = 1
   \<and> data (snd (GetData ex_env 1 (ex_osiris ''x1''))) = FloatArray [1, - 1 / 2]
   \<and> fst (GetData ex_env 4 (snd (GetData ex_env 1 (ex_osiris ''x1'')))) =
       Inl (OSError ''sim/RAW-electrons-000004.h5'')
   \<and> currentTimeStep (snd (GetData ex_env 4 (snd (GetData ex_env 1 (ex_osiris ''x1''))))) = 4
   \<and> data (snd (GetData ex_env 4 (snd (GetData ex_env 1 (ex_osiris ''x1''))))) =
       FloatArray [1, - 1 / 2]
   \<and> fst (GetData ex_env 4 (snd (GetData ex_env 4 (snd (GetData ex_env 1 (ex_osiris ''x1'')))))) =
       Inr (FloatArray [1, - 1 / 2])
   \<and> fst (GetTime ex_env 4 (snd (GetData ex_env 1 (ex_osiris ''x1'')))) =
       Inl (OSError ''sim/RAW-electrons-000004.h5'')
   \<and> currentTimeStep (snd (GetTime ex_env 4 (snd (GetData ex_env 1 (ex_osiris ''x1''))))) = 4
   \<and> currentTime (snd (GetTime ex_env 4 (snd (GetData ex_env 1 (ex_osiris ''x1''))))) = Some (5 / 2)"
  by (simp add: ex_osiris_eq run_defs)

text \<open>
  Claim C5 at failing inputs. The methods call \<^verbatim>\<open>file_content.close()\<close> as their last
  statement only: a units read of a field the file does not hold, and a data or time read
  of a file without the \<^verbatim>\<open>TIME\<close> attribute, raise KeyError and return with the file
  open.
\<close>

theorem failed_read_leaves_file_open:
  "open_handles (trace (ex_osiris ''ene'')) = []
   \<and> fst (GetDataUnits ex_env (ex_osiris ''ene'')) = Inl (KeyError ''ene'')
   \<and> open_handles (trace (snd (GetDataUnits ex_env (ex_osiris ''ene'')))) =
       [''sim/RAW-electrons-000001.h5'']
   \<and> fst (GetData ex_env 3 (ex_osiris ''x1'')) = Inl (KeyError ''TIME'')
   \<and> open_handles (trace (snd (GetData ex_env 3 (ex_osiris ''x1'')))) =
       [''sim/RAW-electrons-000003.h5'']
   \<and> fst (GetTime ex_env 3 (ex_osiris ''x1'')) = Inl (KeyError ''TIME'')
   \<and> open_handles (trace (snd (GetTime ex_env 3 (ex_osiris ''x1'')))) =
       [''sim/RAW-electrons-000003.h5'']"
  by (simp add: ex_osiris_eq run_defs open_handles_def)

subsection \<open>Construction without the optional module\<close>

text \<open>
  Claim C6 at the failing input. Without \<^verbatim>\<open>opmd_viewer\<close> the constructor raises
  before any file is opened and the object is untouched, but the error is the NameError of
  the misspelt \<^verbatim>\<open>RunTimeError\<close>, not an error that carries the installation message.
\<close>

theorem OpenPMD_init_without_opmd_viewer:
  "OpenPMDRawDataReader_init (E\<lparr>opmd_viewer := None\<rparr>) noTimeStep self loc sp dn iname ft =
     (Inl (NameError ''RunTimeError''), self)
   \<and> NameError ''RunTimeError'' \<noteq> RuntimeError install_message"
  by (simp add: OpenPMDRawDataReader_init_def openpmd_installed_def)


subsection \<open>The shift of the first coordinate\<close>

lemma fadd_example: "map (\<lambda>x. fadd x (5 / 2)) [1, - 1 / 2] = [7 / 2, 2]"
proof -
  have "fadd 1 (5 / 2) = 7 / 2" unfolding fadd_def using fl64_half[of 7] by simp
  moreover have "fadd (- 1 / 2) (5 / 2) = 2" unfolding fadd_def using fl64_int[of 2] by simp
  ultimately show ?thesis by simp
qed

text \<open>
  Claim C4, as amended. In a HiPACE data read that opens its file and finds the
  \<^verbatim>\<open>TIME\<close> attribute: for the field \<^verbatim>\<open>x1\<close>, stored as a float64 array, the result
  is the stored array with the time added to every element, in float64, and the time is
  the reader's \<^verbatim>\<open>currentTime\<close>; for a field other than \<^verbatim>\<open>x1\<close> and \<^verbatim>\<open>tag\<close> the
  result is the stored array as it is; for \<^verbatim>\<open>tag\<close> it is the array of synthesized
  ids, with no time added. Raw values \<open>[1, -0.5]\<close> at time \<open>2.5\<close> give \<open>[3.5, 2]\<close>.
\<close>

theorem HiPACE_shifts_x1_only:
  assumes "HiPACE_OpenFile E timeStep self = (Inr (file_path, file_content), s1)"
    and "attr_TIME file_content = Some (T # Ts)"
  shows "(internalName self = ''x1'' \<longrightarrow> np_array_get file_content ''x1'' = FloatArray xs \<longrightarrow>
            fst (HiPACE_ReadData E timeStep self) = Inr (FloatArray (map (\<lambda>x. fadd x T) xs))
            \<and> currentTime (snd (HiPACE_ReadData E timeStep self)) = Some T)
       \<and> (internalName self \<noteq> ''x1'' \<longrightarrow> internalName self \<noteq> ''tag'' \<longrightarrow>
            fst (HiPACE_ReadData E timeStep self) =
              Inr (np_array_get file_content (internalName self)))
       \<and> (internalName self = ''tag'' \<longrightarrow>
            fst (HiPACE_ReadData E timeStep self) = tag_ids (np_array_get file_content ''tag''))
       \<and> map (\<lambda>x. fadd x (5 / 2)) [1, - 1 / 2] = [7 / 2, 2]"
proof -
  have i: "internalName s1 = internalName self"
    using kept_HiPACE_OpenFile[OF assms(1)] by (simp add: kept_def)
  have x: "internalName self = ''x1'' \<longrightarrow> np_array_get file_content ''x1'' = FloatArray xs \<longrightarrow>
            fst (HiPACE_ReadData E timeStep self) = Inr (FloatArray (map (\<lambda>x. fadd x T) xs))
            \<and> currentTime (snd (HiPACE_ReadData E timeStep self)) = Some T"
    using assms i
    by (simp add: HiPACE_ReadData_def Let_def attr_first_def iadd_scalar_def h5_close_def)
  have o: "internalName self \<noteq> ''x1'' \<longrightarrow> internalName self \<noteq> ''tag'' \<longrightarrow>
            fst (HiPACE_ReadData E timeStep self) =
              Inr (np_array_get file_content (internalName self))"
    using assms i
    by (simp add: HiPACE_ReadData_def Let_def attr_first_def)
  have g: "internalName self = ''tag'' \<longrightarrow>
            fst (HiPACE_ReadData E timeStep self) = tag_ids (np_array_get file_content ''tag'')"
    using assms i
    by (simp add: HiPACE_ReadData_def Let_def attr_first_def split: sum.splits)
  from x o g fadd_example show ?thesis by (intro conjI)
qed

text \<open>
  The theorem on the HiPACE file of the concrete run (time \<open>2.5\<close>), for the fields
  \<^verbatim>\<open>x1\<close>, \<^verbatim>\<open>q\<close> and \<^verbatim>\<open>tag\<close>.
\<close>

theorem HiPACE_shifts_x1_only_witness:
  "fst (HiPACE_ReadData ex_env 1 (ex_hipace ''x1'')) = Inr (FloatArray [7 / 2, 2])
   \<and> fst (HiPACE_ReadData ex_env 1 (ex_hipace ''q'')) = Inr (FloatArray [- 1, - 1])
   \<and> fst (HiPACE_ReadData ex_env 1 (ex_hipace ''tag'')) = Inr (FloatArray [41, 0])"
proof -
  have t: "attr_TIME (ex_file [1, - 1 / 2] (5 / 2)) = Some (5 / 2 # [])" by (simp add: ex_file_def)
  have h: "HiPACE_OpenFile ex_env 1 (ex_hipace name) =
      (Inr (''sim/raw_electrons_000001.h5'', ex_file [1, - 1 / 2] (5 / 2)),
       log_event (FileOpen ''sim/raw_electrons_000001.h5'') (ex_hipace name))" for name
    by (rule HiPACE_OpenFile_ex_1) (simp_all add: ex_hipace_eq)
  have x: "np_array_get (ex_file [1, - 1 / 2] (5 / 2)) ''x1'' = FloatArray [1, - 1 / 2]"
    "np_array_get (ex_file [1, - 1 / 2] (5 / 2)) ''q'' = FloatArray [- 1, - 1]"
    by (simp_all add: np_array_get_def ex_file_def)
  have g: "tag_ids (np_array_get (ex_file [1, - 1 / 2] (5 / 2)) ''tag'') = Inr (FloatArray [41, 0])"
    by (simp add: ex_file_tag tag_ids_def cantor_pairing_3_5 cantor_pairing_0_0)
  have n: "internalName (ex_hipace name) = name" for name by (simp add: ex_hipace_eq)
  from HiPACE_shifts_x1_only[OF h t, of "''x1''" "[1, - 1 / 2]"]
    HiPACE_shifts_x1_only[OF h t, of "''q''" "[]"]
    HiPACE_shifts_x1_only[OF h t, of "''tag''" "[]"] x g n
  show ?thesis by simp
qed


text \<open>
  Claim C4 as stated fails for the field \<^verbatim>\<open>tag\<close>, which is a field other than the
  first coordinate: the read does not return the stored pairs \<open>(3, 5)\<close> and \<open>(0, 0)\<close>
  but the ids \<open>41\<close> and \<open>0\<close> computed from them.
\<close>

theorem HiPACE_tag_read_is_not_the_stored_array:
  "HiPACE_OpenFile ex_env 1 (ex_hipace ''tag'') =
     (Inr (''sim/raw_electrons_000001.h5'', ex_file [1, - 1 / 2] (5 / 2)),
      log_event (FileOpen ''sim/raw_electrons_000001.h5'') (ex_hipace ''tag''))
   \<and> np_array_get (ex_file [1, - 1 / 2] (5 / 2)) ''tag'' = IntPairArray [(3, 5), (0, 0)]
   \<and> fst (HiPACE_ReadData ex_env 1 (ex_hipace ''tag'')) = Inr (FloatArray [41, 0])
   \<and> FloatArray [41, 0] \<noteq> IntPairArray [(3, 5), (0, 0)]"
proof -
  have h: "HiPACE_OpenFile ex_env 1 (ex_hipace ''tag'') =
     (Inr (''sim/raw_electrons_000001.h5'', ex_file [1, - 1 / 2] (5 / 2)),
      log_event (FileOpen ''sim/raw_electrons_000001.h5'') (ex_hipace ''tag''))"
    by (rule HiPACE_OpenFile_ex_1) (simp_all add: ex_hipace_eq)
  have t: "attr_TIME (ex_file [1, - 1 / 2] (5 / 2)) = Some (5 / 2 # [])" by (simp add: ex_file_def)
  have n: "internalName (ex_hipace ''tag'') = ''tag''" by (simp add: ex_hipace_eq)
  have "fst (HiPACE_ReadData ex_env 1 (ex_hipace ''tag'')) =
      tag_ids (np_array_get (ex_file [1, - 1 / 2] (5 / 2)) ''tag'')"
    by (rule HiPACE_ReadData_tag[OF n h t])
  then have "fst (HiPACE_ReadData ex_env 1 (ex_hipace ''tag'')) = Inr (FloatArray [41, 0])"
    by (simp add: ex_file_tag tag_ids_def cantor_pairing_3_5 cantor_pairing_0_0)
  with h ex_file_tag show ?thesis by simp
qed

subsection \<open>Units\<close>

lemma kept_Osiris_ReadUnits: "Osiris_ReadUnits E s = (r, s') \<Longrightarrow> kept s s'"
  unfolding Osiris_ReadUnits_def
  by (auto simp: kept_def Let_def h5_close_def log_event_def extractions_def resolutions_def
      split: prod.splits sum.splits dest!: kept_Osiris_OpenFile)

lemma kept_HiPACE_ReadUnits: "HiPACE_ReadUnits s = (r, s') \<Longrightarrow> kept s s'"
  unfolding HiPACE_ReadUnits_def
  by (auto simp: kept_def Let_def split: if_splits)

lemma kept_OpenPMD_ReadUnits: "OpenPMD_ReadUnits s = (r, s') \<Longrightarrow> kept s s'"
  unfolding OpenPMD_ReadUnits_def
  by (auto simp: kept_def)

lemma ReadUnits_frame:
  assumes "ReadUnits E s = (r, s')"
  shows "backend s' = backend s \<and> location s' = location s \<and> speciesName s' = speciesName s \<and>
         dataName s' = dataName s \<and> internalName s' = internalName s \<and>
         firstTimeStep s' = firstTimeStep s \<and> currentTimeStep s' = currentTimeStep s \<and>
         data s' = data s \<and> extractions (trace s') = extractions (trace s) \<and>
         resolutions (trace s') = Suc (resolutions (trace s))"
proof -
  define s0 where "s0 = log_event CallReadUnits s"
  have k: "kept s0 s'"
    using assms kept_Osiris_ReadUnits[of E s0 r s'] kept_HiPACE_ReadUnits[of s0 r s']
      kept_OpenPMD_ReadUnits[of s0 r s']
    by (simp add: ReadUnits_def Let_def s0_def split: backend.splits)
  show ?thesis using k by (simp add: kept_def s0_def extractions_log resolutions_log)
qed

lemma ReadUnits_resolved:
  "backend s \<noteq> Osiris \<Longrightarrow>
   fst (ReadUnits E s) = Inr () \<and> dataUnits (snd (ReadUnits E s)) \<noteq> [] \<and>
   timeUnits (snd (ReadUnits E s)) \<noteq> []"
  by (cases "backend s")
     (simp_all add: ReadUnits_def Let_def HiPACE_ReadUnits_def OpenPMD_ReadUnits_def
        c_over_omega_p_def one_over_omega_p_def)

lemma fst_GetDataUnits:
  "fst (GetDataUnits E s) =
     (if dataUnits s = []
      then case fst (ReadUnits E s) of
             Inl e \<Rightarrow> Inl e
           | Inr u \<Rightarrow> Inr (dataUnits (snd (ReadUnits E s)))
      else Inr (dataUnits s))"
  by (simp add: GetDataUnits_def split: prod.splits sum.splits)

lemma fst_GetTimeUnits:
  "fst (GetTimeUnits E s) =
     (if timeUnits s = []
      then case fst (ReadUnits E s) of
             Inl e \<Rightarrow> Inl e
           | Inr u \<Rightarrow> Inr (timeUnits (snd (ReadUnits E s)))
      else Inr (timeUnits s))"
  by (simp add: GetTimeUnits_def split: prod.splits sum.splits)

lemma decode_units_examples:
  "decode_units [] = []" "decode_units c_over_omega_p = c_over_omega_p"
  "decode_units one_over_omega_p = one_over_omega_p"
  by (simp_all add: decode_units_def str_bytes_def slice_2_m1_def Let_def repr_byte_def
      c_over_omega_p_def one_over_omega_p_def)


lemma log_event_cache_update:
  "log_event ev (s\<lparr>currentTimeStep := t, currentTime := c, data := d\<rparr>) =
     (log_event ev s)\<lparr>currentTimeStep := t, currentTime := c, data := d\<rparr>"
  by (simp add: log_event_def)

lemma Osiris_OpenFile_cache_update:
  "Osiris_OpenFile E n (s\<lparr>currentTimeStep := t, currentTime := c, data := d\<rparr>) =
     (fst (Osiris_OpenFile E n s),
      (snd (Osiris_OpenFile E n s))\<lparr>currentTimeStep := t, currentTime := c, data := d\<rparr>)"
  by (simp add: Osiris_OpenFile_def H5File_def Let_def log_event_def split: option.splits)

lemma Osiris_ReadUnits_cache_update:
  "fst (Osiris_ReadUnits E (s\<lparr>currentTimeStep := t, currentTime := c, data := d\<rparr>)) =
     fst (Osiris_ReadUnits E s)
   \<and> dataUnits (snd (Osiris_ReadUnits E (s\<lparr>currentTimeStep := t, currentTime := c, data := d\<rparr>))) =
       dataUnits (snd (Osiris_ReadUnits E s))
   \<and> timeUnits (snd (Osiris_ReadUnits E (s\<lparr>currentTimeStep := t, currentTime := c, data := d\<rparr>))) =
       timeUnits (snd (Osiris_ReadUnits E s))"
proof -
  obtain r s1 where o: "Osiris_OpenFile E (firstTimeStep s) s = (r, s1)"
    by (cases "Osiris_OpenFile E (firstTimeStep s) s")
  have u: "Osiris_OpenFile E (firstTimeStep s) (s\<lparr>currentTimeStep := t, currentTime := c, data := d\<rparr>) =
      (r, s1\<lparr>currentTimeStep := t, currentTime := c, data := d\<rparr>)"
    using o by (simp add: Osiris_OpenFile_cache_update)
  show ?thesis
  proof (cases r)
    case (Inl e)
    then show ?thesis using o u by (simp add: Osiris_ReadUnits_def)
  next
    case (Inr pf)
    obtain p f where pf: "pf = (p, f)" by (cases pf)
    show ?thesis
    proof (cases "dataset_units f (internalName s1)")
      case (Inl e)
      then show ?thesis using o u Inr pf by (simp add: Osiris_ReadUnits_def)
    next
      case du: (Inr un)
      show ?thesis
      proof (cases "attr_first ''TIME UNITS'' (attr_TIME_UNITS f)")
        case (Inl e)
        then show ?thesis using o u Inr pf du by (simp add: Osiris_ReadUnits_def Let_def)
      next
        case tu: (Inr tun)
        then show ?thesis using o u Inr pf du
          by (simp add: Osiris_ReadUnits_def Let_def h5_close_def log_event_def)
      qed
    qed
  qed
qed

lemma ReadUnits_timestep_independent:
  "fst (ReadUnits E (s\<lparr>currentTimeStep := t, currentTime := c, data := d\<rparr>)) = fst (ReadUnits E s)
   \<and> dataUnits (snd (ReadUnits E (s\<lparr>currentTimeStep := t, currentTime := c, data := d\<rparr>))) =
       dataUnits (snd (ReadUnits E s))
   \<and> timeUnits (snd (ReadUnits E (s\<lparr>currentTimeStep := t, currentTime := c, data := d\<rparr>))) =
       timeUnits (snd (ReadUnits E s))"
proof (cases "backend s")
  case Osiris
  then show ?thesis
    using Osiris_ReadUnits_cache_update[where E = E and s = "log_event CallReadUnits s" and t = t and c = c and d = d]
    by (simp add: ReadUnits_def Let_def log_event_cache_update)
next
  case HiPACE
  then show ?thesis
    by (simp add: ReadUnits_def Let_def log_event_def HiPACE_ReadUnits_def)
next
  case OpenPMD
  then show ?thesis
    by (simp add: ReadUnits_def Let_def log_event_def OpenPMD_ReadUnits_def)
qed


text \<open>
  Claim C9, as amended. When \<^verbatim>\<open>GetDataUnits()\<close> (or \<^verbatim>\<open>GetTimeUnits()\<close>) returns a
  non-empty string, the next call returns the same string and leaves the reader as it
  is, so it makes no \<^verbatim>\<open>_ReadUnits\<close> call. A call on a reader whose units string is
  empty makes exactly one \<^verbatim>\<open>_ReadUnits\<close> call. For the HiPACE and the openPMD reader,
  whose \<^verbatim>\<open>_ReadUnits\<close> always stores non-empty strings, two consecutive calls make
  at most one \<^verbatim>\<open>_ReadUnits\<close> call and return the same result. What the getters
  return does not depend on the cached timestep, time and data.
\<close>

theorem units_cached_once_resolved:
  "(GetDataUnits E self = (Inr u, s1) \<longrightarrow> u \<noteq> [] \<longrightarrow> GetDataUnits E s1 = (Inr u, s1))
   \<and> (GetTimeUnits E self = (Inr u, s1) \<longrightarrow> u \<noteq> [] \<longrightarrow> GetTimeUnits E s1 = (Inr u, s1))
   \<and> (dataUnits self = [] \<longrightarrow>
        resolutions (trace (snd (GetDataUnits E self))) = resolutions (trace self) + 1)
   \<and> (timeUnits self = [] \<longrightarrow>
        resolutions (trace (snd (GetTimeUnits E self))) = resolutions (trace self) + 1)
   \<and> (backend self \<noteq> Osiris \<longrightarrow>
        resolutions (trace (snd (GetDataUnits E (snd (GetDataUnits E self))))) \<le>
          resolutions (trace self) + 1
        \<and> fst (GetDataUnits E (snd (GetDataUnits E self))) = fst (GetDataUnits E self)
        \<and> resolutions (trace (snd (GetTimeUnits E (snd (GetDataUnits E self))))) \<le>
          resolutions (trace self) + 1)
   \<and> fst (GetDataUnits E (self\<lparr>currentTimeStep := t, currentTime := c, data := d\<rparr>)) =
       fst (GetDataUnits E self)
   \<and> fst (GetTimeUnits E (self\<lparr>currentTimeStep := t, currentTime := c, data := d\<rparr>)) =
       fst (GetTimeUnits E self)"
proof (intro conjI impI)
  assume "GetDataUnits E self = (Inr u, s1)" "u \<noteq> []"
  then show "GetDataUnits E s1 = (Inr u, s1)"
    by (auto simp: GetDataUnits_def split: if_splits prod.splits sum.splits)
next
  assume "GetTimeUnits E self = (Inr u, s1)" "u \<noteq> []"
  then show "GetTimeUnits E s1 = (Inr u, s1)"
    by (auto simp: GetTimeUnits_def split: if_splits prod.splits sum.splits)
next
  assume a: "dataUnits self = []"
  obtain r s' where ru: "ReadUnits E self = (r, s')" by (cases "ReadUnits E self")
  from ReadUnits_frame[OF ru] a ru
  show "resolutions (trace (snd (GetDataUnits E self))) = resolutions (trace self) + 1"
    by (simp add: GetDataUnits_def split: sum.splits)
next
  assume a: "timeUnits self = []"
  obtain r s' where ru: "ReadUnits E self = (r, s')" by (cases "ReadUnits E self")
  from ReadUnits_frame[OF ru] a ru
  show "resolutions (trace (snd (GetTimeUnits E self))) = resolutions (trace self) + 1"
    by (simp add: GetTimeUnits_def split: sum.splits)
next
  assume b: "backend self \<noteq> Osiris"
  obtain r s' where ru: "ReadUnits E self = (r, s')" by (cases "ReadUnits E self")
  from ReadUnits_resolved[OF b, of E] ru
  have r: "r = Inr ()" "dataUnits s' \<noteq> []" "timeUnits s' \<noteq> []" by simp_all
  from ReadUnits_frame[OF ru] have c: "resolutions (trace s') = Suc (resolutions (trace self))" by simp
  show "resolutions (trace (snd (GetDataUnits E (snd (GetDataUnits E self))))) \<le>
          resolutions (trace self) + 1"
    using ru r c by (simp add: GetDataUnits_def)
  show "fst (GetDataUnits E (snd (GetDataUnits E self))) = fst (GetDataUnits E self)"
    using ru r c by (simp add: GetDataUnits_def)
  show "resolutions (trace (snd (GetTimeUnits E (snd (GetDataUnits E self))))) \<le>
          resolutions (trace self) + 1"
    using ru r c by (simp add: GetDataUnits_def GetTimeUnits_def)
next
  show "fst (GetDataUnits E (self\<lparr>currentTimeStep := t, currentTime := c, data := d\<rparr>)) =
       fst (GetDataUnits E self)"
    using ReadUnits_timestep_independent[where E = E and s = self and t = t and c = c and d = d]
    by (simp add: fst_GetDataUnits split: sum.splits)
next
  show "fst (GetTimeUnits E (self\<lparr>currentTimeStep := t, currentTime := c, data := d\<rparr>)) =
       fst (GetTimeUnits E self)"
    using ReadUnits_timestep_independent[where E = E and s = self and t = t and c = c and d = d]
    by (simp add: fst_GetTimeUnits split: sum.splits)
qed


lemma GetDataUnits_resolutions:
  "resolutions (trace (snd (GetDataUnits E s))) =
     resolutions (trace s) + (if dataUnits s = [] then 1 else 0)"
proof (cases "dataUnits s = []")
  case True
  obtain r s' where ru: "ReadUnits E s = (r, s')" by (cases "ReadUnits E s")
  from ReadUnits_frame[OF ru] True ru show ?thesis
    by (simp add: GetDataUnits_def split: sum.splits)
next
  case False
  then show ?thesis by (simp add: GetDataUnits_def)
qed


text \<open>
  Claim C9 as stated fails when the resolved string is empty, the value that means
  unresolved: the tags of the concrete run carry an empty \<^verbatim>\<open>UNITS\<close> string, and each
  of two consecutive \<^verbatim>\<open>GetDataUnits()\<close> calls makes a \<^verbatim>\<open>_ReadUnits\<close> call.
\<close>

theorem empty_units_resolved_on_every_call:
  "fst (GetDataUnits ex_env (ex_osiris ''tag'')) = Inr []
   \<and> fst (GetDataUnits ex_env (snd (GetDataUnits ex_env (ex_osiris ''tag'')))) = Inr []
   \<and> resolutions (trace (ex_osiris ''tag'')) = 0
   \<and> resolutions (trace (snd (GetDataUnits ex_env (snd (GetDataUnits ex_env (ex_osiris ''tag'')))))) = 2"
proof -
  have r0: "resolutions (trace (ex_osiris ''tag'')) = 0"
    by (simp add: ex_osiris_eq resolutions_def)
  have f1: "fst (GetDataUnits ex_env (ex_osiris ''tag'')) = Inr []"
    by (simp add: ex_osiris_eq run_defs decode_units_examples)
  have d1: "dataUnits (snd (GetDataUnits ex_env (ex_osiris ''tag''))) = []"
    by (simp add: ex_osiris_eq run_defs decode_units_examples)
  have f2: "fst (GetDataUnits ex_env (snd (GetDataUnits ex_env (ex_osiris ''tag'')))) = Inr []"
    by (simp add: ex_osiris_eq run_defs decode_units_examples)
  have e0: "dataUnits (ex_osiris ''tag'') = []" by (simp add: ex_osiris_eq)
  have r1: "resolutions (trace (snd (GetDataUnits ex_env (ex_osiris ''tag'')))) = 1"
    using GetDataUnits_resolutions[of ex_env "ex_osiris ''tag''"] e0 r0 by simp
  have r2: "resolutions (trace (snd (GetDataUnits ex_env (snd (GetDataUnits ex_env (ex_osiris ''tag'')))))) = 2"
    using GetDataUnits_resolutions[of ex_env "snd (GetDataUnits ex_env (ex_osiris ''tag''))"] d1 r1
    by simp
  from f1 f2 r0 r2 show ?thesis by (intro conjI)
qed

text \<open>
  The amended claim on the concrete run: the OSIRIS reader of \<^verbatim>\<open>x1\<close> resolves both
  units once, to non-empty strings, and the second call of either getter returns the
  cached string and leaves the reader as it is; two calls on the HiPACE reader make one
  \<^verbatim>\<open>_ReadUnits\<close> call.
\<close>

theorem units_cached_once_resolved_witness:
  "GetDataUnits ex_env (snd (GetDataUnits ex_env (ex_osiris ''x1''))) =
     (Inr c_over_omega_p, snd (GetDataUnits ex_env (ex_osiris ''x1'')))
   \<and> GetTimeUnits ex_env (snd (GetTimeUnits ex_env (ex_osiris ''x1''))) =
     (Inr one_over_omega_p, snd (GetTimeUnits ex_env (ex_osiris ''x1'')))
   \<and> resolutions (trace (snd (GetDataUnits ex_env (ex_osiris ''x1'')))) = 1
   \<and> resolutions (trace (snd (GetDataUnits ex_env (snd (GetDataUnits ex_env (ex_hipace ''x1'')))))) \<le> 1"
proof -
  have fa: "fst (GetDataUnits ex_env (ex_osiris ''x1'')) = Inr c_over_omega_p"
    by (simp add: ex_osiris_eq run_defs decode_units_examples)
  have fb: "fst (GetTimeUnits ex_env (ex_osiris ''x1'')) = Inr one_over_omega_p"
    by (simp add: ex_osiris_eq run_defs decode_units_examples)
  have a: "GetDataUnits ex_env (ex_osiris ''x1'') =
      (Inr c_over_omega_p, snd (GetDataUnits ex_env (ex_osiris ''x1'')))"
    using fa by (metis prod.collapse)
  have b: "GetTimeUnits ex_env (ex_osiris ''x1'') =
      (Inr one_over_omega_p, snd (GetTimeUnits ex_env (ex_osiris ''x1'')))"
    using fb by (metis prod.collapse)
  have n: "c_over_omega_p \<noteq> []" "one_over_omega_p \<noteq> []"
    by (simp_all add: c_over_omega_p_def one_over_omega_p_def)
  have e: "dataUnits (ex_osiris ''x1'') = []" "resolutions (trace (ex_osiris ''x1'')) = 0"
    by (simp_all add: ex_osiris_eq resolutions_def)
  have h: "backend (ex_hipace ''x1'') \<noteq> Osiris" "resolutions (trace (ex_hipace ''x1'')) = 0"
    by (simp_all add: ex_hipace_eq resolutions_def)
  note A = units_cached_once_resolved[of ex_env "ex_osiris ''x1''" c_over_omega_p
      "snd (GetDataUnits ex_env (ex_osiris ''x1''))"]
  note B = units_cached_once_resolved[of ex_env "ex_osiris ''x1''" one_over_omega_p
      "snd (GetTimeUnits ex_env (ex_osiris ''x1''))"]
  note C = units_cached_once_resolved[of ex_env "ex_hipace ''x1''"]
  have 1: "GetDataUnits ex_env (snd (GetDataUnits ex_env (ex_osiris ''x1''))) =
     (Inr c_over_omega_p, snd (GetDataUnits ex_env (ex_osiris ''x1'')))"
    using A[THEN conjunct1, rule_format, OF a n(1)] .
  have 2: "GetTimeUnits ex_env (snd (GetTimeUnits ex_env (ex_osiris ''x1''))) =
     (Inr one_over_omega_p, snd (GetTimeUnits ex_env (ex_osiris ''x1'')))"
    using B[THEN conjunct2, THEN conjunct1, rule_format, OF b n(2)] .
  have 3: "resolutions (trace (snd (GetDataUnits ex_env (ex_osiris ''x1'')))) = 1"
    using A[THEN conjunct2, THEN conjunct2, THEN conjunct1, rule_format, OF e(1)] e(2) by simp
  have 4: "resolutions (trace (snd (GetDataUnits ex_env (snd (GetDataUnits ex_env (ex_hipace ''x1'')))))) \<le> 1"
    using C[THEN conjunct2, THEN conjunct2, THEN conjunct2, THEN conjunct2, THEN conjunct1,
        rule_format, OF h(1), THEN conjunct1] h(2) by simp
  from 1 2 3 4 show ?thesis by (intro conjI)
qed

subsection \<open>The stored name\<close>



















end
